theory Spec2Isabelle
  imports Complex_Main
begin

section \<open>Data model of \<^verbatim>\<open>src/game.cpp\<close>\<close>

text \<open>
  The game is one C++ class \<^verbatim>\<open>Game\<close> whose methods mutate its members and a few
  globals. The model passes the state explicitly: every method is a function from the
  state (and the frame's inputs) to the new state.

  Numbers. The members that the source computes with \<^verbatim>\<open>float\<close> arithmetic are
  modelled as \<^typ>\<open>real\<close>: comparisons, sums and products are the exact ones, rounding
  is not modelled. The members the source declares or uses as \<^verbatim>\<open>int\<close>
  (\<^verbatim>\<open>width\<close>, \<^verbatim>\<open>height\<close>, \<^verbatim>\<open>score\<close>, \<^verbatim>\<open>highScore\<close>) are \<^typ>\<open>int\<close>; the score
  of a run stays far below \<open>2\<^sup>3\<^sup>1\<close>, so no wrap-around is written out.

  The header \<^verbatim>\<open>game.h\<close> and the constants of \<^verbatim>\<open>globals.h\<close> are not among the
  sources. The types of the members are read off their uses in \<^verbatim>\<open>game.cpp\<close>; the
  constants are collected in the record \<open>config\<close> and stay parameters of every
  definition that uses them.
\<close>

subsection \<open>Integer and conversion helpers of C++\<close>

definition int_div :: "int \<Rightarrow> int \<Rightarrow> int" where
  \<comment> \<open>C++ \<^verbatim>\<open>a / b\<close> on \<^verbatim>\<open>int\<close>: the quotient is truncated toward zero.\<close>
  "int_div a b = (if (a < 0) = (b < 0) then \<bar>a\<bar> div \<bar>b\<bar> else - (\<bar>a\<bar> div \<bar>b\<bar>))"

definition float_to_int :: "real \<Rightarrow> int" where
  \<comment> \<open>The implicit conversion of a \<^verbatim>\<open>float\<close> argument to an \<^verbatim>\<open>int\<close> parameter:
      the fractional part is discarded.\<close>
  "float_to_int r = (if 0 \<le> r then \<lfloor>r\<rfloor> else \<lceil>r\<rceil>)"

definition MINf :: "real \<Rightarrow> real \<Rightarrow> real" where
  \<comment> \<open>The macro \<^verbatim>\<open>MIN(a, b)\<close>, that is \<^verbatim>\<open>((a) < (b)) ? (a) : (b)\<close>; the name
      \<open>MIN\<close> is taken in HOL.\<close>
  "MINf a b = (if a < b then a else b)"

definition MAXf :: "real \<Rightarrow> real \<Rightarrow> real" where
  \<comment> \<open>The macro \<^verbatim>\<open>MAX(a, b)\<close>, that is \<^verbatim>\<open>((a) > (b)) ? (a) : (b)\<close>.\<close>
  "MAXf a b = (if a > b then a else b)"

subsection \<open>The collaborators: input, audio, persistence\<close>

datatype key = KEY_ESCAPE | KEY_ENTER | KEY_Y | KEY_N | KEY_P | KEY_M
  | KEY_SPACE | KEY_UP | KEY_W | KEY_LEFT_ALT | KEY_RIGHT_ALT

text \<open>
  What the host answers to the queries of one frame. The answers do not change within
  a frame, so every occurrence of \<^verbatim>\<open>IsKeyPressed(k)\<close> in the frame reads the same set.
\<close>

record input =
  windowShouldClose :: bool
  keysPressed :: "key set"
  keysDown :: "key set"
  gestureTap :: bool
  windowFocused :: bool
  touchPosition :: "real \<times> real"
  screenWidth :: int
  screenHeight :: int
  randomDraw :: nat

datatype sound = FlySound | HitSound | ScoreSound

text \<open>
  Calls into the audio, window and persistence services are recorded in the order in
  which they are made, most recent first.
\<close>

datatype event = PlayMusicStream | PauseMusicStream | StopMusicStream | UpdateMusicStream
  | PlaySound sound | StopSound sound | ToggleBorderlessWindowed | WriteHighScore int

text \<open>
  The constants. \<open>backgroundTextureWidth\<close> is the width of the loaded background
  texture. \<open>isMobile\<close> is the static member of that name, fixed at construction.
  \<open>EMSCRIPTEN_BUILD\<close> and \<open>EMSCRIPTEN\<close> say whether the macros \<^verbatim>\<open>EMSCRIPTEN_BUILD\<close>
  and \<^verbatim>\<open>__EMSCRIPTEN__\<close> are defined, that is which branches of the conditional
  compilation are present.
\<close>

record config =
  defaultGravity :: real
  defaultJumpForce :: real
  defaultPipeWidth :: real
  defaultPipeGap :: real
  defaultPipeSpeed :: real
  defaultPipeSpawnInterval :: real
  pipeSpeedIncrease :: real
  maxSpeed :: real
  maxGapHeightDifference :: real
  gameOverDelayDuration :: real
  playerEyesClosedDuration :: real
  gameScreenWidth :: int
  gameScreenHeight :: int
  backgroundTextureWidth :: int
  isMobile :: bool
  EMSCRIPTEN_BUILD :: bool
  EMSCRIPTEN :: bool

subsection \<open>Obstacles and the game object\<close>

text \<open>
  An obstacle is the struct pushed by \<^verbatim>\<open>pipes.push_back({(float)width, targetGapCenter, false})\<close>.
  Its member \<^verbatim>\<open>x\<close> is called \<open>pipe_x\<close> here, to keep \<open>x\<close> free as a variable name.
\<close>

record pipe =
  pipe_x :: real
  gapCenter :: real
  scored :: bool

text \<open>
  The members of \<^verbatim>\<open>Game\<close> that the update reads or writes, with the globals
  \<^verbatim>\<open>exitWindowRequested\<close>, \<^verbatim>\<open>exitWindow\<close> and \<^verbatim>\<open>fullscreen\<close>, and the trace \<open>events\<close> of
  the calls made into the services. Textures, sounds and fonts are handles of the asset
  service and carry no state of the simulation.
\<close>

record game =
  firstTimeGameStart :: bool
  isInExitMenu :: bool
  paused :: bool
  lostWindowFocus :: bool
  gameOver :: bool
  exitWindowRequested :: bool
  exitWindow :: bool
  fullscreen :: bool
  screenScale :: real
  width :: int
  height :: int
  playerSize :: real
  playerX :: real
  playerY :: real
  playerVelocity :: real
  playerCollisionWidthRatio :: real
  playerCollisionHeightRatio :: real
  gravity :: real
  jumpForce :: real
  pipeWidth :: real
  pipeGap :: real
  pipeSpeed :: real
  basePipeSpeed :: real
  pipeSpawnInterval :: real
  pipeSpawnTimer :: real
  initialPipeDistance :: real
  speedLevel :: int
  pipes :: "pipe list"
  score :: int
  highScore :: int
  musicPlaying :: bool
  musicManuallyDisabled :: bool
  backgroundScrollX :: real
  backgroundScrollSpeed :: real
  playerEyesClosedTimer :: real
  gameOverDelayTimer :: real
  events :: "event list"

section \<open>The methods of \<^verbatim>\<open>Game\<close>\<close>

subsection \<open>Services of the host library\<close>

definition IsKeyPressed :: "input \<Rightarrow> key \<Rightarrow> bool" where
  "IsKeyPressed inp k = (k \<in> keysPressed inp)"

definition IsKeyDown :: "input \<Rightarrow> key \<Rightarrow> bool" where
  "IsKeyDown inp k = (k \<in> keysDown inp)"

definition GetRandomValue :: "nat \<Rightarrow> int \<Rightarrow> int \<Rightarrow> int" where
  \<comment> \<open>The library's \<^verbatim>\<open>int GetRandomValue(int min, int max)\<close>: it swaps its bounds when
      \<^verbatim>\<open>min > max\<close> and returns a whole number between them, both included. The first
      argument is the raw draw of the frame; as it ranges over the naturals the result
      takes every value of the range.\<close>
  "GetRandomValue r lo hi =
     (let lo' = (if lo > hi then hi else lo);
          hi' = (if lo > hi then lo else hi)
      in lo' + int (r mod nat (hi' - lo' + 1)))"

definition CheckCollisionPointRec :: "real \<times> real \<Rightarrow> real \<times> real \<times> real \<times> real \<Rightarrow> bool" where
  \<comment> \<open>The library's point-in-rectangle test; the rectangle is \<open>(x, y, width, height)\<close>.\<close>
  "CheckCollisionPointRec pt rec =
     (case pt of (px, py) \<Rightarrow> case rec of (rx, ry, rw, rh) \<Rightarrow>
        px \<ge> rx \<and> px < rx + rw \<and> py \<ge> ry \<and> py < ry + rh)"

definition emit :: "event \<Rightarrow> game \<Rightarrow> game" where
  "emit e g = g\<lparr>events := e # events g\<rparr>"

subsection \<open>Construction, \<^verbatim>\<open>InitGame\<close>, \<^verbatim>\<open>Reset\<close>\<close>

definition computeScreenScale :: "config \<Rightarrow> input \<Rightarrow> real" where
  \<comment> \<open>\<^verbatim>\<open>MIN((float)GetScreenWidth() / gameScreenWidth, (float)GetScreenHeight() / gameScreenHeight)\<close>\<close>
  "computeScreenScale cfg inp =
     MINf (real_of_int (screenWidth inp) / real_of_int (gameScreenWidth cfg))
          (real_of_int (screenHeight inp) / real_of_int (gameScreenHeight cfg))"

definition InitGame :: "config \<Rightarrow> input \<Rightarrow> game \<Rightarrow> game" where
  "InitGame cfg inp g =
     g\<lparr>isInExitMenu := False, paused := False, lostWindowFocus := False, gameOver := False,
       screenScale := computeScreenScale cfg inp\<rparr>"

datatype highscore_file = CannotOpen | NoNumber | Holds int

text \<open>
  What \<^verbatim>\<open>highscore.txt\<close> is when the game is constructed: it cannot be opened; or it
  opens and \<^verbatim>\<open>file >> highScore\<close> finds nothing to read (the file is empty), which
  leaves the member as it was; or the extraction stores a number (0 when the content
  is not a number). The number is not checked: it may be negative.
\<close>

definition LoadHighScore :: "config \<Rightarrow> highscore_file \<Rightarrow> game \<Rightarrow> game" where
  "LoadHighScore cfg file g =
     (if \<not> EMSCRIPTEN cfg
      then (case file of
              Holds v \<Rightarrow> g\<lparr>highScore := v\<rparr>
            | NoNumber \<Rightarrow> g
            | CannotOpen \<Rightarrow> g\<lparr>highScore := 0\<rparr>)
      else g\<lparr>highScore := 0\<rparr>)"

definition SaveHighScore :: "config \<Rightarrow> game \<Rightarrow> game" where
  "SaveHighScore cfg g = (if \<not> EMSCRIPTEN cfg then emit (WriteHighScore (highScore g)) g else g)"

definition Game :: "config \<Rightarrow> input \<Rightarrow> highscore_file \<Rightarrow> int \<Rightarrow> int \<Rightarrow> game \<Rightarrow> game" where
  \<comment> \<open>The constructor \<^verbatim>\<open>Game(int width, int height)\<close>. The last argument is the object and
      the globals before construction: what the constructor does not assign
      (\<^verbatim>\<open>gameOverDelayTimer\<close>, the three globals) keeps its value. Loading of textures,
      sounds and fonts is left to the asset service.\<close>
  "Game cfg inp file w h g0 =
     (let g1 = g0\<lparr>firstTimeGameStart := True,
                 playerSize := 80,
                 playerX := real_of_int (int_div w 4),
                 playerY := real_of_int (int_div h 2),
                 playerVelocity := 0,
                 gravity := defaultGravity cfg,
                 jumpForce := defaultJumpForce cfg,
                 pipeWidth := defaultPipeWidth cfg,
                 pipeGap := defaultPipeGap cfg,
                 pipeSpeed := defaultPipeSpeed cfg,
                 basePipeSpeed := defaultPipeSpeed cfg,
                 pipeSpawnInterval := defaultPipeSpawnInterval cfg,
                 pipeSpawnTimer := defaultPipeSpawnInterval cfg,
                 initialPipeDistance := defaultPipeSpeed cfg * defaultPipeSpawnInterval cfg,
                 speedLevel := 0,
                 musicPlaying := False,
                 musicManuallyDisabled := False,
                 score := 0\<rparr>;
          g2 = LoadHighScore cfg file g1;
          g3 = g2\<lparr>playerCollisionWidthRatio := 70 / 100,
                 playerCollisionHeightRatio := 55 / 100,
                 width := w,
                 height := h,
                 backgroundScrollX := 0,
                 backgroundScrollSpeed := basePipeSpeed g2 * (2 / 10),
                 playerEyesClosedTimer := 0\<rparr>
      in InitGame cfg inp g3)"

definition Reset :: "config \<Rightarrow> input \<Rightarrow> game \<Rightarrow> game" where
  "Reset cfg inp g =
     (let g1 = InitGame cfg inp g;
          g2 = g1\<lparr>playerX := real_of_int (int_div (width g1) 4),
                 playerY := real_of_int (int_div (height g1) 2),
                 playerVelocity := 0,
                 pipes := [],
                 pipeSpawnTimer := 0,
                 pipeSpawnInterval := 2,
                 score := 0,
                 speedLevel := 0,
                 pipeSpeed := basePipeSpeed g1\<rparr>
      in if \<not> musicManuallyDisabled g2
         then (emit PlayMusicStream g2)\<lparr>musicPlaying := True\<rparr>
         else g2)"

subsection \<open>\<^verbatim>\<open>HandleInput\<close>\<close>

definition flapRequested :: "config \<Rightarrow> input \<Rightarrow> bool" where
  "flapRequested cfg inp =
     (IsKeyPressed inp KEY_SPACE \<or> IsKeyPressed inp KEY_UP \<or> IsKeyPressed inp KEY_W
      \<or> (isMobile cfg \<and> gestureTap inp))"

definition handleFlap :: "config \<Rightarrow> input \<Rightarrow> game \<Rightarrow> game" where
  \<comment> \<open>First statement of \<^verbatim>\<open>HandleInput\<close>: the flap, behind its own mode test.\<close>
  "handleFlap cfg inp g =
     (if \<not> paused g \<and> \<not> gameOver g \<and> \<not> firstTimeGameStart g \<and> \<not> isInExitMenu g
         \<and> \<not> lostWindowFocus g
      then (if flapRequested cfg inp
            then (emit (PlaySound FlySound) (g\<lparr>playerVelocity := jumpForce g\<rparr>))
                   \<lparr>playerEyesClosedTimer := playerEyesClosedDuration cfg\<rparr>
            else g)
      else g)"

definition handleMusicToggle :: "input \<Rightarrow> game \<Rightarrow> game" where
  \<comment> \<open>Second statement of \<^verbatim>\<open>HandleInput\<close>: the \<^verbatim>\<open>M\<close> key, with no mode test of its own.\<close>
  "handleMusicToggle inp g =
     (if IsKeyPressed inp KEY_M
      then (if musicPlaying g
            then (emit PauseMusicStream g)\<lparr>musicPlaying := False, musicManuallyDisabled := True\<rparr>
            else (emit PlayMusicStream g)\<lparr>musicPlaying := True, musicManuallyDisabled := False\<rparr>)
      else g)"

definition HandleInput :: "config \<Rightarrow> input \<Rightarrow> game \<Rightarrow> game" where
  "HandleInput cfg inp g = handleMusicToggle inp (handleFlap cfg inp g)"

subsection \<open>\<^verbatim>\<open>UpdateUI\<close>\<close>

definition startGame :: "game \<Rightarrow> game" where
  "startGame g = (emit PlayMusicStream (g\<lparr>firstTimeGameStart := False\<rparr>))\<lparr>musicPlaying := True\<rparr>"

definition uiFirstStart :: "config \<Rightarrow> input \<Rightarrow> game \<Rightarrow> game" where
  "uiFirstStart cfg inp g =
     (if firstTimeGameStart g
      then (if isMobile cfg
            then (if gestureTap inp then startGame g else g)
            else (if IsKeyDown inp KEY_ENTER then startGame g else g))
      else g)"

definition uiExitMenu :: "input \<Rightarrow> game \<Rightarrow> game" where
  "uiExitMenu inp g =
     (if exitWindowRequested g
      then (if IsKeyPressed inp KEY_Y then g\<lparr>exitWindow := True\<rparr>
            else if IsKeyPressed inp KEY_N \<or> IsKeyPressed inp KEY_ESCAPE
            then g\<lparr>exitWindowRequested := False, isInExitMenu := False\<rparr>
            else g)
      else g)"

definition uiFocus :: "input \<Rightarrow> game \<Rightarrow> game" where
  "uiFocus inp g = (if windowFocused inp = False then g\<lparr>lostWindowFocus := True\<rparr>
                    else g\<lparr>lostWindowFocus := False\<rparr>)"

definition pauseKey :: "config \<Rightarrow> input \<Rightarrow> bool" where
  "pauseKey cfg inp =
     (if \<not> EMSCRIPTEN_BUILD cfg then IsKeyPressed inp KEY_P
      else IsKeyPressed inp KEY_P \<or> IsKeyPressed inp KEY_ESCAPE)"

definition uiPauseKey :: "config \<Rightarrow> input \<Rightarrow> game \<Rightarrow> game" where
  "uiPauseKey cfg inp g =
     (if exitWindowRequested g = False \<and> lostWindowFocus g = False \<and> gameOver g = False
         \<and> pauseKey cfg inp
      then g\<lparr>paused := \<not> paused g\<rparr> else g)"

definition tapInTitleArea :: "config \<Rightarrow> input \<Rightarrow> game \<Rightarrow> bool" where
  \<comment> \<open>The tap position, moved from screen space to game space, tested against the strip
      \<^verbatim>\<open>{0, 0, (float)width, 100}\<close>.\<close>
  "tapInTitleArea cfg inp g =
     (let screenOffsetX = (real_of_int (screenWidth inp)
                            - real_of_int (gameScreenWidth cfg) * screenScale g) * (1 / 2);
          screenOffsetY = (real_of_int (screenHeight inp)
                            - real_of_int (gameScreenHeight cfg) * screenScale g) * (1 / 2);
          tapX = (fst (touchPosition inp) - screenOffsetX) / screenScale g;
          tapY = (snd (touchPosition inp) - screenOffsetY) / screenScale g
      in CheckCollisionPointRec (tapX, tapY) (0, 0, real_of_int (width g), 100))"

definition uiMobilePause :: "config \<Rightarrow> input \<Rightarrow> game \<Rightarrow> bool \<times> game" where
  "uiMobilePause cfg inp g =
     (if isMobile cfg \<and> \<not> firstTimeGameStart g \<and> \<not> gameOver g \<and> \<not> exitWindowRequested g
      then (if \<not> paused g \<and> gestureTap inp
            then (if tapInTitleArea cfg inp g then (True, g\<lparr>paused := True\<rparr>) else (False, g))
            else if paused g \<and> gestureTap inp then (True, g\<lparr>paused := False\<rparr>)
            else (False, g))
      else (False, g))"

definition uiFullscreen :: "input \<Rightarrow> game \<Rightarrow> game" where
  "uiFullscreen inp g =
     (if IsKeyPressed inp KEY_ENTER \<and> (IsKeyDown inp KEY_LEFT_ALT \<or> IsKeyDown inp KEY_RIGHT_ALT)
      then (if fullscreen g then emit ToggleBorderlessWindowed (g\<lparr>fullscreen := False\<rparr>)
            else emit ToggleBorderlessWindowed (g\<lparr>fullscreen := True\<rparr>))
      else g)"

definition uiAfterExitRequest :: "config \<Rightarrow> input \<Rightarrow> game \<Rightarrow> bool \<times> game" where
  \<comment> \<open>\<^verbatim>\<open>UpdateUI\<close> from the first-start test to its end.\<close>
  "uiAfterExitRequest cfg inp g =
     uiMobilePause cfg inp (uiPauseKey cfg inp (uiFocus inp (uiExitMenu inp (uiFirstStart cfg inp g))))"

definition UpdateUI :: "config \<Rightarrow> input \<Rightarrow> game \<Rightarrow> bool \<times> game" where
  \<comment> \<open>Returns the \<^verbatim>\<open>skipFrame\<close> flag with the new state. The first block is compiled only
      without \<^verbatim>\<open>EMSCRIPTEN_BUILD\<close>; a request to exit ends the function at once.\<close>
  "UpdateUI cfg inp g =
     (if \<not> EMSCRIPTEN_BUILD cfg
      then (if windowShouldClose inp \<or> (IsKeyPressed inp KEY_ESCAPE \<and> exitWindowRequested g = False)
            then (False, g\<lparr>exitWindowRequested := True, isInExitMenu := True\<rparr>)
            else uiAfterExitRequest cfg inp (uiFullscreen inp g))
      else uiAfterExitRequest cfg inp g)"

subsection \<open>\<^verbatim>\<open>UpdatePipeSpeed\<close>\<close>

definition UpdatePipeSpeed :: "config \<Rightarrow> real \<Rightarrow> game \<Rightarrow> game" where
  "UpdatePipeSpeed cfg dt g =
     (let g1 = g\<lparr>pipeSpeed := pipeSpeed g + pipeSpeedIncrease cfg * dt\<rparr>;
          g2 = (if pipeSpeed g1 > maxSpeed cfg then g1\<lparr>pipeSpeed := maxSpeed cfg\<rparr> else g1);
          g3 = g2\<lparr>pipeSpawnInterval := initialPipeDistance g2 / pipeSpeed g2\<rparr>
      in g3\<lparr>backgroundScrollSpeed := pipeSpeed g3 * (2 / 10)\<rparr>)"

subsection \<open>\<^verbatim>\<open>Update\<close>: the blocks of a running frame\<close>

definition is_running :: "game \<Rightarrow> bool" where
  \<comment> \<open>The local \<^verbatim>\<open>running\<close> of \<^verbatim>\<open>Update\<close>.\<close>
  "is_running g =
     (firstTimeGameStart g = False \<and> paused g = False \<and> lostWindowFocus g = False
      \<and> isInExitMenu g = False \<and> gameOver g = False)"

definition raiseHighScore :: "config \<Rightarrow> game \<Rightarrow> game" where
  \<comment> \<open>\<^verbatim>\<open>if (score > highScore) { highScore = score; SaveHighScore(); }\<close>, which the source
      writes out at each of its three uses.\<close>
  "raiseHighScore cfg g =
     (if score g > highScore g then SaveHighScore cfg (g\<lparr>highScore := score g\<rparr>) else g)"

definition onCollision :: "config \<Rightarrow> game \<Rightarrow> game" where
  \<comment> \<open>The body that both collision tests of \<^verbatim>\<open>Update\<close> run: enter game-over, arm the delay
      timer, silence music and effects, play the hit cue, keep the high score.\<close>
  "onCollision cfg g =
     raiseHighScore cfg
       (emit (PlaySound HitSound) (emit (StopSound ScoreSound) (emit (StopSound FlySound)
          (emit StopMusicStream
             (g\<lparr>gameOver := True, gameOverDelayTimer := gameOverDelayDuration cfg\<rparr>)))))"

definition scrollBackground :: "config \<Rightarrow> real \<Rightarrow> game \<Rightarrow> game" where
  "scrollBackground cfg dt g =
     (let g1 = g\<lparr>backgroundScrollX := backgroundScrollX g + backgroundScrollSpeed g * dt\<rparr>
      in if backgroundScrollX g1 \<ge> real_of_int (backgroundTextureWidth cfg)
         then g1\<lparr>backgroundScrollX := backgroundScrollX g1 - real_of_int (backgroundTextureWidth cfg)\<rparr>
         else g1)"

definition serviceMusic :: "game \<Rightarrow> game" where
  "serviceMusic g = (if musicPlaying g then emit UpdateMusicStream g else g)"

definition integratePlayer :: "real \<Rightarrow> game \<Rightarrow> game" where
  "integratePlayer dt g =
     (let g1 = g\<lparr>playerVelocity := playerVelocity g + gravity g * dt\<rparr>
      in g1\<lparr>playerY := playerY g1 + playerVelocity g1 * dt\<rparr>)"

definition collisionBoxWidth :: "game \<Rightarrow> real" where
  "collisionBoxWidth g = playerSize g * playerCollisionWidthRatio g"

definition collisionBoxHeight :: "game \<Rightarrow> real" where
  "collisionBoxHeight g = playerSize g * playerCollisionHeightRatio g"

definition checkBoundaryCollision :: "real \<Rightarrow> game \<Rightarrow> bool" where
  "checkBoundaryCollision boxH g =
     (playerY g - boxH / 2 < 0 \<or> playerY g + boxH / 2 > real_of_int (height g))"

definition boundaryStep :: "config \<Rightarrow> real \<Rightarrow> game \<Rightarrow> game" where
  "boundaryStep cfg boxH g = (if checkBoundaryCollision boxH g then onCollision cfg g else g)"

definition prevGapCenter :: "game \<Rightarrow> real" where
  \<comment> \<open>\<^verbatim>\<open>pipes.back().gapCenter\<close>, read only when the vector is not empty.\<close>
  "prevGapCenter g = gapCenter (last (pipes g))"

definition minGapCenter :: "config \<Rightarrow> game \<Rightarrow> real" where
  "minGapCenter cfg g = MAXf (pipeGap g / 2) (prevGapCenter g - maxGapHeightDifference cfg)"

definition maxGapCenter :: "config \<Rightarrow> game \<Rightarrow> real" where
  "maxGapCenter cfg g =
     MINf (real_of_int (height g) - pipeGap g / 2) (prevGapCenter g + maxGapHeightDifference cfg)"

definition targetGapCenter :: "config \<Rightarrow> input \<Rightarrow> game \<Rightarrow> real" where
  \<comment> \<open>The gap center of the next obstacle. \<^verbatim>\<open>height / 2\<close> is a division of \<^verbatim>\<open>int\<close>s;
      \<^verbatim>\<open>GetRandomValue\<close> takes \<^verbatim>\<open>int\<close>s, so both bounds lose their fraction on the way
      in, and the whole number it returns is stored back as a \<^verbatim>\<open>float\<close>.\<close>
  "targetGapCenter cfg inp g =
     (if pipes g = [] then real_of_int (int_div (height g) 2)
      else real_of_int (GetRandomValue (randomDraw inp)
                          (float_to_int (minGapCenter cfg g)) (float_to_int (maxGapCenter cfg g))))"

definition spawnStep :: "config \<Rightarrow> input \<Rightarrow> real \<Rightarrow> game \<Rightarrow> game" where
  "spawnStep cfg inp dt g =
     (let g1 = g\<lparr>pipeSpawnTimer := pipeSpawnTimer g + dt\<rparr>
      in if pipeSpawnTimer g1 \<ge> pipeSpawnInterval g1
         then (let g2 = g1\<lparr>pipeSpawnTimer := 0\<rparr>
               in g2\<lparr>pipes := pipes g2 @
                      [\<lparr>pipe_x = real_of_int (width g2),
                        gapCenter = targetGapCenter cfg inp g2,
                        scored = False\<rparr>]\<rparr>)
         else g1)"

definition scoreCheck :: "config \<Rightarrow> game \<Rightarrow> pipe \<Rightarrow> game \<times> pipe" where
  \<comment> \<open>The scoring test of the loop body, on one obstacle.\<close>
  "scoreCheck cfg g p =
     (if playerX g > pipe_x p + pipeWidth g \<and> \<not> scored p
      then (raiseHighScore cfg (emit (PlaySound ScoreSound) (g\<lparr>score := score g + 1\<rparr>)),
            p\<lparr>scored := True\<rparr>)
      else (g, p))"

definition checkObstacleCollision :: "real \<Rightarrow> real \<Rightarrow> game \<Rightarrow> pipe \<Rightarrow> bool" where
  \<comment> \<open>The two nested tests of the loop body: the horizontal one, then the vertical one.\<close>
  "checkObstacleCollision boxW boxH g p =
     (playerX g + boxW / 2 > pipe_x p \<and> playerX g - boxW / 2 < pipe_x p + pipeWidth g
      \<and> (playerY g - boxH / 2 < gapCenter p - pipeGap g / 2
          \<or> playerY g + boxH / 2 > gapCenter p + pipeGap g / 2))"

definition collisionCheck :: "config \<Rightarrow> real \<Rightarrow> real \<Rightarrow> game \<Rightarrow> pipe \<Rightarrow> game" where
  "collisionCheck cfg boxW boxH g p =
     (if \<not> gameOver g
      then (if checkObstacleCollision boxW boxH g p then onCollision cfg g else g)
      else g)"

definition pipeStep :: "config \<Rightarrow> real \<Rightarrow> real \<Rightarrow> real \<Rightarrow> game \<Rightarrow> pipe \<Rightarrow> game \<times> pipe" where
  \<comment> \<open>One pass of the body of \<^verbatim>\<open>for (auto& pipe : pipes)\<close>.\<close>
  "pipeStep cfg dt boxW boxH g p =
     (let p1 = p\<lparr>pipe_x := pipe_x p - pipeSpeed g * dt\<rparr>;
          (g1, p2) = scoreCheck cfg g p1
      in (collisionCheck cfg boxW boxH g1 p2, p2))"

fun pipeLoop :: "config \<Rightarrow> real \<Rightarrow> real \<Rightarrow> real \<Rightarrow> game \<Rightarrow> pipe list \<Rightarrow> game \<times> pipe list" where
  \<comment> \<open>The loop over the obstacles, in vector order. The body reads and writes members
      other than \<^verbatim>\<open>pipes\<close>; the updated obstacles are returned beside the state.\<close>
  "pipeLoop cfg dt boxW boxH g [] = (g, [])"
| "pipeLoop cfg dt boxW boxH g (p # ps) =
     (let (g1, p') = pipeStep cfg dt boxW boxH g p;
          (g2, ps') = pipeLoop cfg dt boxW boxH g1 ps
      in (g2, p' # ps'))"

definition movePipes :: "config \<Rightarrow> real \<Rightarrow> real \<Rightarrow> real \<Rightarrow> game \<Rightarrow> game" where
  "movePipes cfg dt boxW boxH g =
     (let (g1, ps) = pipeLoop cfg dt boxW boxH g (pipes g) in g1\<lparr>pipes := ps\<rparr>)"

definition removeOffscreen :: "game \<Rightarrow> game" where
  \<comment> \<open>\<^verbatim>\<open>erase(remove_if(...))\<close> with the predicate \<^verbatim>\<open>pipe.x < -pipeWidth\<close>.\<close>
  "removeOffscreen g = g\<lparr>pipes := filter (\<lambda>p. \<not> pipe_x p < - pipeWidth g) (pipes g)\<rparr>"

definition eyesStep :: "real \<Rightarrow> game \<Rightarrow> game" where
  "eyesStep dt g =
     (if playerEyesClosedTimer g > 0
      then (let g1 = g\<lparr>playerEyesClosedTimer := playerEyesClosedTimer g - dt\<rparr>
            in if playerEyesClosedTimer g1 < 0 then g1\<lparr>playerEyesClosedTimer := 0\<rparr> else g1)
      else g)"

definition runningFrame :: "config \<Rightarrow> input \<Rightarrow> real \<Rightarrow> game \<Rightarrow> game" where
  \<comment> \<open>The body of the second \<^verbatim>\<open>if (running)\<close> of \<^verbatim>\<open>Update\<close>.\<close>
  "runningFrame cfg inp dt g =
     (let g1 = HandleInput cfg inp g;
          g2 = UpdatePipeSpeed cfg dt g1;
          g3 = integratePlayer dt g2;
          boxW = collisionBoxWidth g3;
          boxH = collisionBoxHeight g3;
          g4 = boundaryStep cfg boxH g3;
          g5 = spawnStep cfg inp dt g4;
          g6 = movePipes cfg dt boxW boxH g5;
          g7 = removeOffscreen g6
      in eyesStep dt g7)"

definition restartRequested :: "config \<Rightarrow> input \<Rightarrow> bool" where
  "restartRequested cfg inp =
     (if isMobile cfg then gestureTap inp else IsKeyPressed inp KEY_ENTER)"

definition delayStep :: "real \<Rightarrow> game \<Rightarrow> game" where
  "delayStep dt g =
     (if gameOverDelayTimer g > 0
      then (let g1 = g\<lparr>gameOverDelayTimer := gameOverDelayTimer g - dt\<rparr>
            in if gameOverDelayTimer g1 < 0 then g1\<lparr>gameOverDelayTimer := 0\<rparr> else g1)
      else g)"

definition restartFires :: "config \<Rightarrow> input \<Rightarrow> real \<Rightarrow> game \<Rightarrow> bool" where
  \<comment> \<open>The condition under which the last block of \<^verbatim>\<open>Update\<close> calls \<^verbatim>\<open>Reset\<close>.\<close>
  "restartFires cfg inp dt g =
     (gameOver g \<and> gameOverDelayTimer (delayStep dt g) \<le> 0 \<and> restartRequested cfg inp)"

definition gameOverStep :: "config \<Rightarrow> input \<Rightarrow> real \<Rightarrow> game \<Rightarrow> game" where
  \<comment> \<open>The block \<^verbatim>\<open>if (gameOver) { ... }\<close> that ends \<^verbatim>\<open>Update\<close>.\<close>
  "gameOverStep cfg inp dt g =
     (if gameOver g
      then (let g1 = delayStep dt g
            in if gameOverDelayTimer g1 \<le> 0
               then (if restartRequested cfg inp then Reset cfg inp g1 else g1)
               else g1)
      else g)"

definition simulate :: "config \<Rightarrow> input \<Rightarrow> real \<Rightarrow> game \<Rightarrow> game" where
  \<comment> \<open>\<^verbatim>\<open>Update\<close> between the call of \<^verbatim>\<open>UpdateUI\<close> and the game-over block.\<close>
  "simulate cfg inp dt g =
     (let running = is_running g;
          g1 = (if running then scrollBackground cfg dt g else g);
          g2 = serviceMusic g1
      in if running then runningFrame cfg inp dt g2 else g2)"

definition Update :: "config \<Rightarrow> input \<Rightarrow> real \<Rightarrow> game \<Rightarrow> game" where
  "Update cfg inp dt g =
     (if dt = 0 then g
      else (let g1 = g\<lparr>screenScale := computeScreenScale cfg inp\<rparr>;
                (skipFrame, g2) = UpdateUI cfg inp g1
            in if skipFrame then g2
               else gameOverStep cfg inp dt (simulate cfg inp dt g2)))"

section \<open>Notions used in the statements\<close>

subsection \<open>Collision, in the words of the specification\<close>

text \<open>
  The specification speaks of extents and intervals. The obstacle occupies
  \<open>[x, x + width)\<close>; the box's horizontal extent is written with the same convention, so
  that two extents that merely touch do not overlap. The vertical extent of the box and
  the gap band are closed intervals, and the extent "falls outside" the band when it is
  not contained in it.
\<close>

definition boxHorizontal :: "real \<Rightarrow> game \<Rightarrow> real set" where
  "boxHorizontal boxW g = {playerX g - boxW / 2 ..< playerX g + boxW / 2}"

definition obstacleHorizontal :: "game \<Rightarrow> pipe \<Rightarrow> real set" where
  "obstacleHorizontal g p = {pipe_x p ..< pipe_x p + pipeWidth g}"

definition boxVertical :: "real \<Rightarrow> game \<Rightarrow> real set" where
  "boxVertical boxH g = {playerY g - boxH / 2 .. playerY g + boxH / 2}"

definition gapBand :: "game \<Rightarrow> pipe \<Rightarrow> real set" where
  "gapBand g p = {gapCenter p - pipeGap g / 2 .. gapCenter p + pipeGap g / 2}"

definition specCollision :: "real \<Rightarrow> real \<Rightarrow> game \<Rightarrow> pipe \<Rightarrow> bool" where
  "specCollision boxW boxH g p =
     (boxHorizontal boxW g \<inter> obstacleHorizontal g p \<noteq> {}
      \<and> \<not> boxVertical boxH g \<subseteq> gapBand g p)"

subsection \<open>Runs of frames\<close>

definition tickAll :: "config \<Rightarrow> real list \<Rightarrow> game \<Rightarrow> game" where
  \<comment> \<open>A sequence of ticks of the difficulty controller, one per frame time.\<close>
  "tickAll cfg dts g = foldl (\<lambda>s dt. UpdatePipeSpeed cfg dt s) g dts"

definition afterUI :: "config \<Rightarrow> input \<Rightarrow> game \<Rightarrow> bool \<times> game" where
  \<comment> \<open>What \<^verbatim>\<open>Update\<close> holds once \<^verbatim>\<open>UpdateUI\<close> has returned: the \<^verbatim>\<open>skipFrame\<close> flag and the
      state with the frame's mode flags.\<close>
  "afterUI cfg inp g = UpdateUI cfg inp (g\<lparr>screenScale := computeScreenScale cfg inp\<rparr>)"

definition frameRestarts :: "config \<Rightarrow> input \<Rightarrow> real \<Rightarrow> game \<Rightarrow> bool" where
  \<comment> \<open>The frame reaches the call of \<^verbatim>\<open>Reset\<close>, which ends the run and starts the next.\<close>
  "frameRestarts cfg inp dt g =
     (dt \<noteq> 0 \<and> \<not> fst (afterUI cfg inp g)
      \<and> restartFires cfg inp dt (simulate cfg inp dt (snd (afterUI cfg inp g))))"

definition simState :: "game \<Rightarrow> real \<times> real \<times> real \<times> pipe list \<times> int \<times> real" where
  \<comment> \<open>The simulation state: player position and velocity, obstacles, score, speed.\<close>
  "simState g = (playerX g, playerY g, playerVelocity g, pipes g, score g, pipeSpeed g)"

definition newlyPassed :: "real \<Rightarrow> game \<Rightarrow> pipe \<Rightarrow> bool" where
  \<comment> \<open>The scoring test of the loop body as it meets an obstacle of the frame: the
      obstacle has been moved by the frame's step before the test reads it.\<close>
  "newlyPassed dt g p = (playerX g > pipe_x p - pipeSpeed g * dt + pipeWidth g \<and> \<not> scored p)"

definition advancePipe :: "real \<Rightarrow> game \<Rightarrow> pipe \<Rightarrow> pipe" where
  \<comment> \<open>What one pass of the loop body leaves of an obstacle.\<close>
  "advancePipe dt g p =
     p\<lparr>pipe_x := pipe_x p - pipeSpeed g * dt, scored := (scored p \<or> newlyPassed dt g p)\<rparr>"

definition uiFrame ::
  "game \<Rightarrow> (real \<times> real \<times> real \<times> pipe list \<times> int \<times> real) \<times> int \<times> bool \<times> bool \<times> real \<times> int \<times> int \<times> real" where
  \<comment> \<open>The members that \<^verbatim>\<open>UpdateUI\<close> never writes.\<close>
  "uiFrame g = (simState g, highScore g, musicManuallyDisabled g, gameOver g,
                gameOverDelayTimer g, width g, height g, basePipeSpeed g)"

definition scoreFrame :: "game \<Rightarrow> int \<times> int \<times> bool" where
  \<comment> \<open>What a scoring event or a collision changes: score, high score, game-over flag.\<close>
  "scoreFrame g = (score g, highScore g, gameOver g)"

definition musicFlags :: "game \<Rightarrow> bool \<times> bool" where
  \<comment> \<open>Whether the music plays, and whether the player has switched it off.\<close>
  "musicFlags g = (musicPlaying g, musicManuallyDisabled g)"

definition withoutM :: "input \<Rightarrow> input" where
  \<comment> \<open>The same frame with the \<^verbatim>\<open>M\<close> key not pressed.\<close>
  "withoutM inp = inp\<lparr>keysPressed := keysPressed inp - {KEY_M}\<rparr>"

inductive reachable :: "config \<Rightarrow> game \<Rightarrow> bool" for cfg :: config where
  constructed: "reachable cfg (Game cfg inp file w h g0)"
| frame: "reachable cfg g \<Longrightarrow> reachable cfg (Update cfg inp dt g)"

text \<open>
  The states of a game: it is constructed, whatever the high-score file holds and
  whatever the storage held before, and then updated frame after frame.
\<close>

section \<open>A concrete configuration\<close>

text \<open>
  The theorems below hold for every configuration. Where one of them is applied to a
  concrete frame, the values are these: a desktop build, a window of 800 by 600, and
  round numbers for the constants.
\<close>

definition exampleConfig :: config where
  "exampleConfig =
     \<lparr>defaultGravity = 1000, defaultJumpForce = - 400, defaultPipeWidth = 80,
      defaultPipeGap = 200, defaultPipeSpeed = 200, defaultPipeSpawnInterval = 2,
      pipeSpeedIncrease = 5, maxSpeed = 400, maxGapHeightDifference = 150,
      gameOverDelayDuration = 1, playerEyesClosedDuration = 1 / 5,
      gameScreenWidth = 800, gameScreenHeight = 600, backgroundTextureWidth = 1600,
      isMobile = False, EMSCRIPTEN_BUILD = False, EMSCRIPTEN = False\<rparr>"

definition idleInput :: input where
  \<comment> \<open>A frame in which the window has the focus and nothing is pressed.\<close>
  "idleInput =
     \<lparr>windowShouldClose = False, keysPressed = {}, keysDown = {}, gestureTap = False,
      windowFocused = True, touchPosition = (0, 0), screenWidth = 800, screenHeight = 600,
      randomDraw = 0\<rparr>"

definition blankGame :: game where
  \<comment> \<open>Zeroed storage, for the members that the constructor leaves unassigned.\<close>
  "blankGame =
     \<lparr>firstTimeGameStart = False, isInExitMenu = False, paused = False,
      lostWindowFocus = False, gameOver = False, exitWindowRequested = False,
      exitWindow = False, fullscreen = False, screenScale = 0, width = 0, height = 0,
      playerSize = 0, playerX = 0, playerY = 0, playerVelocity = 0,
      playerCollisionWidthRatio = 0, playerCollisionHeightRatio = 0, gravity = 0,
      jumpForce = 0, pipeWidth = 0, pipeGap = 0, pipeSpeed = 0, basePipeSpeed = 0,
      pipeSpawnInterval = 0, pipeSpawnTimer = 0, initialPipeDistance = 0, speedLevel = 0,
      pipes = [], score = 0, highScore = 0, musicPlaying = False,
      musicManuallyDisabled = False, backgroundScrollX = 0, backgroundScrollSpeed = 0,
      playerEyesClosedTimer = 0, gameOverDelayTimer = 0, events = []\<rparr>"

definition newGame :: game where
  \<comment> \<open>The game as constructed for 800 by 600 with no stored high score.\<close>
  "newGame = Game exampleConfig idleInput CannotOpen 800 600 blankGame"

definition startInput :: input where
  \<comment> \<open>\<^verbatim>\<open>Enter\<close> is held down.\<close>
  "startInput = idleInput\<lparr>keysDown := {KEY_ENTER}\<rparr>"

definition enterInput :: input where
  \<comment> \<open>\<^verbatim>\<open>Enter\<close> has just been pressed.\<close>
  "enterInput = idleInput\<lparr>keysPressed := {KEY_ENTER}\<rparr>"

definition musicInput :: input where
  \<comment> \<open>\<^verbatim>\<open>M\<close> has just been pressed.\<close>
  "musicInput = idleInput\<lparr>keysPressed := {KEY_M}\<rparr>"

definition crashedGame :: game where
  \<comment> \<open>The game is started and the first frame lasts a second: the player falls through
      the floor.\<close>
  "crashedGame = Update exampleConfig startInput 1 newGame"

definition restartedGame :: game where
  "restartedGame = Update exampleConfig enterInput 1 crashedGame"

definition examplePipe :: pipe where
  "examplePipe = \<lparr>pipe_x = 210, gapCenter = 450, scored = False\<rparr>"

definition oddGame :: game where
  \<comment> \<open>A game constructed with an odd height.\<close>
  "oddGame = Game exampleConfig idleInput CannotOpen 800 601 blankGame"

definition oddGapConfig :: config where
  \<comment> \<open>A configuration whose gap has an odd size.\<close>
  "oddGapConfig = exampleConfig\<lparr>defaultPipeGap := 175, maxGapHeightDifference := 250\<rparr>"

definition flapInput :: input where
  \<comment> \<open>\<^verbatim>\<open>Space\<close> has just been pressed; the raw random draw of the frame is 0.\<close>
  "flapInput = idleInput\<lparr>keysPressed := {KEY_SPACE}\<rparr>"

definition oddStarted :: game where
  \<comment> \<open>The game of odd height after its first running frame: the first obstacle is out.\<close>
  "oddStarted = Update exampleConfig startInput (1 / 10) oddGame"

definition oddGapGame :: game where
  \<comment> \<open>Under that configuration, a run that is started and kept in the air by a flap in
      each of three frames of half a second: the first obstacle is out and the spawn
      timer stands at a second and a half.\<close>
  "oddGapGame =
     Update oddGapConfig flapInput (1 / 2)
       (Update oddGapConfig flapInput (1 / 2)
          (Update oddGapConfig flapInput (1 / 2)
             (Update oddGapConfig startInput (1 / 10)
                (Game oddGapConfig idleInput CannotOpen 800 600 blankGame))))"

definition oddGapSpawned :: game where
  \<comment> \<open>One more such frame: the spawn timer reaches the interval and the second
      obstacle is generated.\<close>
  "oddGapSpawned = Update oddGapConfig flapInput (1 / 2) oddGapGame"

definition negativeFileGame :: game where
  \<comment> \<open>The game as constructed when \<^verbatim>\<open>highscore.txt\<close> holds \<open>-5\<close>.\<close>
  "negativeFileGame = Game exampleConfig idleInput (Holds (- 5)) 800 600 blankGame"

definition scoredGame :: game where
  \<comment> \<open>The game is started and the first frame lasts four seconds: the first obstacle
      is spawned and carried past the player within the frame.\<close>
  "scoredGame = Update exampleConfig startInput 4 newGame"

definition escInput :: input where
  \<comment> \<open>\<^verbatim>\<open>Escape\<close> has just been pressed.\<close>
  "escInput = idleInput\<lparr>keysPressed := {KEY_ESCAPE}\<rparr>"

definition exitPendingGame :: game where
  \<comment> \<open>After the crash the player asks to exit: the confirmation is pending.\<close>
  "exitPendingGame = Update exampleConfig escInput 1 crashedGame"

definition exitRestartedGame :: game where
  \<comment> \<open>With the confirmation pending, the player restarts instead of answering.\<close>
  "exitRestartedGame = Update exampleConfig enterInput 1 exitPendingGame"

section \<open>Properties\<close>

subsection \<open>The frame as a composition of its blocks\<close>

lemma runningFrame_comp:
  "runningFrame cfg inp dt g =
     eyesStep dt (removeOffscreen
       (movePipes cfg dt
          (collisionBoxWidth (integratePlayer dt (UpdatePipeSpeed cfg dt (HandleInput cfg inp g))))
          (collisionBoxHeight (integratePlayer dt (UpdatePipeSpeed cfg dt (HandleInput cfg inp g))))
          (spawnStep cfg inp dt
             (boundaryStep cfg
                (collisionBoxHeight (integratePlayer dt (UpdatePipeSpeed cfg dt (HandleInput cfg inp g))))
                (integratePlayer dt (UpdatePipeSpeed cfg dt (HandleInput cfg inp g)))))))"
  by (simp only: runningFrame_def Let_def)

lemma simulate_comp:
  "simulate cfg inp dt g =
     (if is_running g then runningFrame cfg inp dt (serviceMusic (scrollBackground cfg dt g))
      else serviceMusic g)"
  by (simp add: simulate_def Let_def)

lemma Update_comp:
  "Update cfg inp dt g =
     (if dt = 0 then g
      else if fst (afterUI cfg inp g) then snd (afterUI cfg inp g)
      else gameOverStep cfg inp dt (simulate cfg inp dt (snd (afterUI cfg inp g))))"
  by (simp add: Update_def afterUI_def Let_def split_beta)

lemmas stage_defs = afterUI_def UpdateUI_def uiAfterExitRequest_def uiMobilePause_def
  uiPauseKey_def uiFocus_def uiExitMenu_def uiFirstStart_def uiFullscreen_def startGame_def
  pauseKey_def is_running_def scrollBackground_def serviceMusic_def HandleInput_def
  handleFlap_def handleMusicToggle_def flapRequested_def UpdatePipeSpeed_def
  integratePlayer_def collisionBoxWidth_def collisionBoxHeight_def boundaryStep_def
  checkBoundaryCollision_def onCollision_def raiseHighScore_def SaveHighScore_def
  spawnStep_def targetGapCenter_def minGapCenter_def maxGapCenter_def prevGapCenter_def
  movePipes_def pipeStep_def scoreCheck_def collisionCheck_def checkObstacleCollision_def
  removeOffscreen_def eyesStep_def gameOverStep_def delayStep_def restartRequested_def
  Reset_def InitGame_def computeScreenScale_def emit_def IsKeyPressed_def IsKeyDown_def
  MINf_def MAXf_def int_div_def float_to_int_def GetRandomValue_def

lemmas frame_eval = Update_comp simulate_comp runningFrame_comp stage_defs Let_def

subsection \<open>The example states, computed\<close>

lemma newGame_eq:
  "newGame =
     \<lparr>firstTimeGameStart = True, isInExitMenu = False, paused = False,
      lostWindowFocus = False, gameOver = False, exitWindowRequested = False,
      exitWindow = False, fullscreen = False, screenScale = 1, width = 800,
      height = 600, playerSize = 80, playerX = 200, playerY = 300,
      playerVelocity = 0, playerCollisionWidthRatio = 7 / 10,
      playerCollisionHeightRatio = 11 / 20, gravity = 1000, jumpForce = - 400,
      pipeWidth = 80, pipeGap = 200, pipeSpeed = 200, basePipeSpeed = 200,
      pipeSpawnInterval = 2, pipeSpawnTimer = 2, initialPipeDistance = 400,
      speedLevel = 0, pipes = [], score = 0, highScore = 0,
      musicPlaying = False, musicManuallyDisabled = False,
      backgroundScrollX = 0, backgroundScrollSpeed = 40,
      playerEyesClosedTimer = 0, gameOverDelayTimer = 0, events = []\<rparr>"
  by (simp add: newGame_def Game_def LoadHighScore_def InitGame_def computeScreenScale_def
      exampleConfig_def idleInput_def blankGame_def MINf_def int_div_def Let_def)

lemma crashedGame_eq:
  "crashedGame =
     \<lparr>firstTimeGameStart = False, isInExitMenu = False, paused = False,
      lostWindowFocus = False, gameOver = True, exitWindowRequested = False,
      exitWindow = False, fullscreen = False, screenScale = 1, width = 800,
      height = 600, playerSize = 80, playerX = 200, playerY = 1300,
      playerVelocity = 1000, playerCollisionWidthRatio = 7 / 10,
      playerCollisionHeightRatio = 11 / 20, gravity = 1000, jumpForce = - 400,
      pipeWidth = 80, pipeGap = 200, pipeSpeed = 205, basePipeSpeed = 200,
      pipeSpawnInterval = 80 / 41, pipeSpawnTimer = 0,
      initialPipeDistance = 400, speedLevel = 0,
      pipes = [\<lparr>pipe_x = 595, gapCenter = 300, scored = False\<rparr>], score = 0,
      highScore = 0, musicPlaying = True, musicManuallyDisabled = False,
      backgroundScrollX = 40, backgroundScrollSpeed = 41,
      playerEyesClosedTimer = 0, gameOverDelayTimer = 0,
      events = [PlaySound HitSound, StopSound ScoreSound, StopSound FlySound,
                StopMusicStream, UpdateMusicStream, PlayMusicStream]\<rparr>"
  unfolding crashedGame_def newGame_eq
  by (simp add: frame_eval exampleConfig_def startInput_def idleInput_def)

lemma restartedGame_eq:
  "restartedGame =
     \<lparr>firstTimeGameStart = False, isInExitMenu = False, paused = False,
      lostWindowFocus = False, gameOver = False, exitWindowRequested = False,
      exitWindow = False, fullscreen = False, screenScale = 1, width = 800,
      height = 600, playerSize = 80, playerX = 200, playerY = 300,
      playerVelocity = 0, playerCollisionWidthRatio = 7 / 10,
      playerCollisionHeightRatio = 11 / 20, gravity = 1000, jumpForce = - 400,
      pipeWidth = 80, pipeGap = 200, pipeSpeed = 200, basePipeSpeed = 200,
      pipeSpawnInterval = 2, pipeSpawnTimer = 0, initialPipeDistance = 400,
      speedLevel = 0, pipes = [], score = 0, highScore = 0,
      musicPlaying = True, musicManuallyDisabled = False,
      backgroundScrollX = 40, backgroundScrollSpeed = 41,
      playerEyesClosedTimer = 0, gameOverDelayTimer = 0,
      events = [PlayMusicStream, UpdateMusicStream, PlaySound HitSound,
                StopSound ScoreSound, StopSound FlySound, StopMusicStream,
                UpdateMusicStream, PlayMusicStream]\<rparr>"
  unfolding restartedGame_def crashedGame_eq
  by (simp add: frame_eval exampleConfig_def enterInput_def idleInput_def)

subsection \<open>A frame without elapsed time\<close>

text \<open>
  Claim C8. A call of the per-frame update with \<open>dt = 0\<close> changes nothing: the state
  after the call is the state before it, in every member, whatever the inputs of the
  frame are.
\<close>

theorem update_zero_dt_is_noop: "Update cfg inp 0 g = g"
  by (simp add: Update_def)

subsection \<open>Obstacle collision\<close>

lemma ico_inter_nonempty:
  fixes a b c d :: real
  assumes "a < b" "c < d"
  shows "{a..<b} \<inter> {c..<d} \<noteq> {} \<longleftrightarrow> a < d \<and> c < b"
  using assms by auto

lemma horizontal_overlap_iff:
  assumes "0 < boxW" "0 < pipeWidth g"
  shows "boxHorizontal boxW g \<inter> obstacleHorizontal g p \<noteq> {} \<longleftrightarrow>
           playerX g + boxW / 2 > pipe_x p \<and> playerX g - boxW / 2 < pipe_x p + pipeWidth g"
proof -
  have box: "playerX g - boxW / 2 < playerX g + boxW / 2" using assms(1) by simp
  have obs: "pipe_x p < pipe_x p + pipeWidth g" using assms(2) by simp
  show ?thesis
    unfolding boxHorizontal_def obstacleHorizontal_def
    using ico_inter_nonempty[OF box obs] by blast
qed

lemma vertical_outside_iff:
  assumes "0 \<le> boxH"
  shows "\<not> boxVertical boxH g \<subseteq> gapBand g p \<longleftrightarrow>
           playerY g - boxH / 2 < gapCenter p - pipeGap g / 2
           \<or> playerY g + boxH / 2 > gapCenter p + pipeGap g / 2"
proof -
  have box: "playerY g - boxH / 2 \<le> playerY g + boxH / 2" using assms by simp
  have "boxVertical boxH g \<subseteq> gapBand g p \<longleftrightarrow>
          gapCenter p - pipeGap g / 2 \<le> playerY g - boxH / 2
          \<and> playerY g + boxH / 2 \<le> gapCenter p + pipeGap g / 2"
    unfolding boxVertical_def gapBand_def using box by (simp add: atLeastatMost_subset_iff)
  then show ?thesis by linarith
qed

lemma checkObstacleCollision_spec:
  assumes "0 < boxW" "0 \<le> boxH" "0 < pipeWidth g"
  shows "checkObstacleCollision boxW boxH g p = specCollision boxW boxH g p"
  unfolding specCollision_def checkObstacleCollision_def
  using horizontal_overlap_iff[OF assms(1,3)] vertical_outside_iff[OF assms(2)] by blast

lemma gameOver_raiseHighScore [simp]: "gameOver (raiseHighScore cfg g) = gameOver g"
  by (simp add: raiseHighScore_def SaveHighScore_def emit_def)

lemma gameOver_onCollision [simp]: "gameOver (onCollision cfg g)"
  by (simp add: onCollision_def emit_def)

lemma gameOver_collisionCheck:
  "\<not> gameOver g \<Longrightarrow> gameOver (collisionCheck cfg boxW boxH g p) = checkObstacleCollision boxW boxH g p"
  by (simp add: collisionCheck_def)

text \<open>
  Claim C1. For every obstacle and every player state, the obstacle test reports a
  collision exactly when the horizontal extent of the collision box overlaps the
  obstacle's interval \<open>[x, x + width)\<close> and the vertical extent of the box is not
  contained in the gap band \<open>[gapCenter - gapSize/2, gapCenter + gapSize/2]\<close>. In
  particular a box inside the band never collides while it overlaps the obstacle, and
  an obstacle that the box does not overlap never collides. In the loop the test runs
  while the game is not over, and its positive answer is the game-over transition.
  The box has a positive width and the obstacle a positive width; the box's height is
  not negative.
\<close>

theorem obstacle_collision_iff_overlap_outside_gap:
  assumes "0 < boxW" "0 \<le> boxH" "0 < pipeWidth g"
  shows "(checkObstacleCollision boxW boxH g p \<longleftrightarrow>
            boxHorizontal boxW g \<inter> obstacleHorizontal g p \<noteq> {}
            \<and> \<not> boxVertical boxH g \<subseteq> gapBand g p)
       \<and> (boxHorizontal boxW g \<inter> obstacleHorizontal g p \<noteq> {}
            \<and> boxVertical boxH g \<subseteq> gapBand g p
            \<longrightarrow> \<not> checkObstacleCollision boxW boxH g p)
       \<and> (boxHorizontal boxW g \<inter> obstacleHorizontal g p = {}
            \<longrightarrow> \<not> checkObstacleCollision boxW boxH g p)
       \<and> (\<not> gameOver g \<longrightarrow>
            gameOver (collisionCheck cfg boxW boxH g p) = specCollision boxW boxH g p)"
proof -
  have eq: "checkObstacleCollision boxW boxH g p = specCollision boxW boxH g p"
    using assms by (rule checkObstacleCollision_spec)
  show ?thesis
    using eq gameOver_collisionCheck[of g cfg boxW boxH p]
    unfolding specCollision_def by blast
qed

theorem obstacle_collision_witness:
  "(0::real) < 56 \<and> (0::real) \<le> 44 \<and> 0 < pipeWidth newGame
   \<and> checkObstacleCollision 56 44 newGame examplePipe
   \<and> boxHorizontal 56 newGame \<inter> obstacleHorizontal newGame examplePipe \<noteq> {}
   \<and> \<not> boxVertical 44 newGame \<subseteq> gapBand newGame examplePipe
   \<and> gameOver (collisionCheck exampleConfig 56 44 newGame examplePipe)
   \<and> \<not> checkObstacleCollision 56 44 newGame (examplePipe\<lparr>gapCenter := 300\<rparr>)
   \<and> boxVertical 44 newGame \<subseteq> gapBand newGame (examplePipe\<lparr>gapCenter := 300\<rparr>)
   \<and> \<not> checkObstacleCollision 56 44 newGame (examplePipe\<lparr>pipe_x := 600\<rparr>)
   \<and> boxHorizontal 56 newGame \<inter> obstacleHorizontal newGame (examplePipe\<lparr>pipe_x := 600\<rparr>) = {}"
proof -
  have w: "(0::real) < 56" and h: "(0::real) \<le> 44" and pw: "0 < pipeWidth newGame"
    by (simp_all add: newGame_eq)
  have hit: "checkObstacleCollision 56 44 newGame examplePipe"
    and over: "boxHorizontal 56 newGame \<inter> obstacleHorizontal newGame (examplePipe\<lparr>gapCenter := 300\<rparr>) \<noteq> {}"
    and alive: "\<not> gameOver newGame"
    by (simp_all add: checkObstacleCollision_def boxHorizontal_def obstacleHorizontal_def
        newGame_eq examplePipe_def)
  note t1 = obstacle_collision_iff_overlap_outside_gap[OF w h pw, of examplePipe exampleConfig]
  note t2 = obstacle_collision_iff_overlap_outside_gap[OF w h pw, of "examplePipe\<lparr>gapCenter := 300\<rparr>" exampleConfig]
  note t3 = obstacle_collision_iff_overlap_outside_gap[OF w h pw, of "examplePipe\<lparr>pipe_x := 600\<rparr>" exampleConfig]
  have inside: "boxVertical 44 newGame \<subseteq> gapBand newGame (examplePipe\<lparr>gapCenter := 300\<rparr>)"
    by (simp add: boxVertical_def gapBand_def newGame_eq examplePipe_def)
  have apart: "boxHorizontal 56 newGame \<inter> obstacleHorizontal newGame (examplePipe\<lparr>pipe_x := 600\<rparr>) = {}"
    by (simp add: boxHorizontal_def obstacleHorizontal_def newGame_eq examplePipe_def)
  show ?thesis
    using w h pw hit over alive t1 t2 t3 inside apart unfolding specCollision_def by blast
qed

subsection \<open>Speed\<close>

lemma pipeSpeed_UpdatePipeSpeed:
  "pipeSpeed (UpdatePipeSpeed cfg dt g) =
     (if pipeSpeed g + pipeSpeedIncrease cfg * dt > maxSpeed cfg then maxSpeed cfg
      else pipeSpeed g + pipeSpeedIncrease cfg * dt)"
  by (simp add: UpdatePipeSpeed_def Let_def)

lemma pipeSpeed_tick_le_max: "pipeSpeed (UpdatePipeSpeed cfg dt g) \<le> maxSpeed cfg"
  by (simp add: pipeSpeed_UpdatePipeSpeed)

lemma tickAll_snoc: "tickAll cfg (dts @ [dt]) g = UpdatePipeSpeed cfg dt (tickAll cfg dts g)"
  by (simp add: tickAll_def)

lemma pipeSpeed_tickAll_le_max:
  "pipeSpeed g \<le> maxSpeed cfg \<Longrightarrow> pipeSpeed (tickAll cfg dts g) \<le> maxSpeed cfg"
proof (induction dts rule: rev_induct)
  case Nil
  then show ?case by (simp add: tickAll_def)
next
  case (snoc dt dts)
  show ?case by (simp only: tickAll_snoc pipeSpeed_tick_le_max)
qed

text \<open>
  Claim C3. Along every sequence of ticks of the difficulty controller, a tick with
  \<open>dt \<ge> 0\<close> leaves \<open>pipeSpeed\<close> at least as large as it was, the speed after the
  tick never exceeds \<open>maxSpeed\<close>, and it is \<open>speed + rate * dt\<close> clamped to \<open>maxSpeed\<close>.
  The rate of the configuration is not negative and the run starts at a speed that does
  not exceed \<open>maxSpeed\<close>.
\<close>

theorem pipe_speed_monotone_and_clamped:
  assumes rate: "0 \<le> pipeSpeedIncrease cfg"
    and start: "pipeSpeed g \<le> maxSpeed cfg"
    and dt: "0 \<le> dt"
  shows "pipeSpeed (tickAll cfg dts g) \<le> pipeSpeed (tickAll cfg (dts @ [dt]) g)
       \<and> pipeSpeed (tickAll cfg (dts @ [dt]) g) \<le> maxSpeed cfg
       \<and> pipeSpeed (tickAll cfg (dts @ [dt]) g)
           = min (maxSpeed cfg) (pipeSpeed (tickAll cfg dts g) + pipeSpeedIncrease cfg * dt)"
proof -
  let ?s = "tickAll cfg dts g"
  have le: "pipeSpeed ?s \<le> maxSpeed cfg" using start by (rule pipeSpeed_tickAll_le_max)
  have inc: "0 \<le> pipeSpeedIncrease cfg * dt" using rate dt by simp
  show ?thesis
    unfolding tickAll_snoc pipeSpeed_UpdatePipeSpeed using le inc by (simp add: min_def)
qed

theorem pipe_speed_witness:
  "0 \<le> pipeSpeedIncrease exampleConfig \<and> pipeSpeed newGame \<le> maxSpeed exampleConfig
   \<and> (0::real) \<le> 30
   \<and> pipeSpeed (tickAll exampleConfig [1, 20] newGame) = 305
   \<and> pipeSpeed (tickAll exampleConfig ([1, 20] @ [30]) newGame) = 400
   \<and> pipeSpeed (tickAll exampleConfig [1, 20] newGame)
       \<le> pipeSpeed (tickAll exampleConfig ([1, 20] @ [30]) newGame)
   \<and> pipeSpeed (tickAll exampleConfig ([1, 20] @ [30]) newGame) \<le> maxSpeed exampleConfig"
proof -
  have rate: "0 \<le> pipeSpeedIncrease exampleConfig"
    and start: "pipeSpeed newGame \<le> maxSpeed exampleConfig"
    and dt: "(0::real) \<le> 30"
    by (simp_all add: exampleConfig_def newGame_eq)
  have before: "pipeSpeed (tickAll exampleConfig [1, 20] newGame) = 305"
    by (simp add: tickAll_def pipeSpeed_UpdatePipeSpeed exampleConfig_def newGame_eq)
  show ?thesis
    using rate start dt before
      pipe_speed_monotone_and_clamped[OF rate start dt, of "[1, 20]"]
    by (simp add: exampleConfig_def)
qed

subsection \<open>Reset\<close>

lemma Reset_fields:
  "score (Reset cfg inp g) = 0"
  "pipeSpeed (Reset cfg inp g) = basePipeSpeed g"
  "pipes (Reset cfg inp g) = []"
  "playerX (Reset cfg inp g) = real_of_int (int_div (width g) 4)"
  "playerY (Reset cfg inp g) = real_of_int (int_div (height g) 2)"
  "playerVelocity (Reset cfg inp g) = 0"
  "paused (Reset cfg inp g) = False"
  "lostWindowFocus (Reset cfg inp g) = False"
  "isInExitMenu (Reset cfg inp g) = False"
  "gameOver (Reset cfg inp g) = False"
  "firstTimeGameStart (Reset cfg inp g) = firstTimeGameStart g"
  "exitWindowRequested (Reset cfg inp g) = exitWindowRequested g"
  "highScore (Reset cfg inp g) = highScore g"
  "musicManuallyDisabled (Reset cfg inp g) = musicManuallyDisabled g"
  "backgroundScrollSpeed (Reset cfg inp g) = backgroundScrollSpeed g"
  by (simp_all add: Reset_def InitGame_def emit_def Let_def)

lemma Game_fields:
  "playerX (Game cfg inp file w h g0) = real_of_int (int_div w 4)"
  "playerY (Game cfg inp file w h g0) = real_of_int (int_div h 2)"
  "playerVelocity (Game cfg inp file w h g0) = 0"
  "width (Game cfg inp file w h g0) = w"
  "height (Game cfg inp file w h g0) = h"
  "score (Game cfg inp file w h g0) = 0"
  "pipeSpeed (Game cfg inp file w h g0) = defaultPipeSpeed cfg"
  "basePipeSpeed (Game cfg inp file w h g0) = defaultPipeSpeed cfg"
  "highScore (Game cfg inp file w h g0)
     = (if EMSCRIPTEN cfg then 0
        else case file of Holds v \<Rightarrow> v | NoNumber \<Rightarrow> highScore g0 | CannotOpen \<Rightarrow> 0)"
  by (simp_all add: Game_def InitGame_def LoadHighScore_def Let_def split: highscore_file.splits)

lemma Reset_restores:
  "score (Reset cfg inp g) = 0
   \<and> pipeSpeed (Reset cfg inp g) = basePipeSpeed g
   \<and> pipes (Reset cfg inp g) = []
   \<and> playerX (Reset cfg inp g) = playerX (Game cfg inp0 file (width g) (height g) g0)
   \<and> playerY (Reset cfg inp g) = playerY (Game cfg inp0 file (width g) (height g) g0)
   \<and> playerVelocity (Reset cfg inp g)
       = playerVelocity (Game cfg inp0 file (width g) (height g) g0)
   \<and> \<not> paused (Reset cfg inp g) \<and> \<not> lostWindowFocus (Reset cfg inp g)
   \<and> \<not> isInExitMenu (Reset cfg inp g) \<and> \<not> gameOver (Reset cfg inp g)
   \<and> firstTimeGameStart (Reset cfg inp g) = firstTimeGameStart g
   \<and> exitWindowRequested (Reset cfg inp g) = exitWindowRequested g
   \<and> highScore (Reset cfg inp g) = highScore g
   \<and> musicManuallyDisabled (Reset cfg inp g) = musicManuallyDisabled g"
  by (simp add: Reset_fields Game_fields)

text \<open>
  Claim C7, evaluated on a restart that is made while the exit confirmation is pending.
  \<^verbatim>\<open>Reset\<close> does restore the score, the speed, the obstacles and the player, and
  \<^verbatim>\<open>InitGame\<close> clears the paused, focus-lost, exit-menu and game-over flags (lemma
  \<open>Reset_restores\<close>). It does not clear \<^verbatim>\<open>exitWindowRequested\<close>, which \<^verbatim>\<open>UpdateUI\<close>
  sets and clears together with \<^verbatim>\<open>isInExitMenu\<close>. After a crash, \<^verbatim>\<open>Escape\<close> and then
  \<^verbatim>\<open>Enter\<close>, the exit confirmation is still pending while \<^verbatim>\<open>isInExitMenu\<close> is clear: the
  next frame runs the simulation (the player falls from 300 to 550) under the pending
  confirmation.
\<close>

theorem reset_leaves_exit_confirmation_pending:
  "gameOver exitPendingGame \<and> \<not> firstTimeGameStart exitPendingGame
   \<and> exitWindowRequested exitPendingGame \<and> isInExitMenu exitPendingGame
   \<and> exitWindowRequested (Reset exampleConfig enterInput exitPendingGame)
   \<and> \<not> isInExitMenu (Reset exampleConfig enterInput exitPendingGame)
   \<and> exitWindowRequested exitRestartedGame \<and> \<not> isInExitMenu exitRestartedGame
   \<and> is_running exitRestartedGame
   \<and> playerY exitRestartedGame = 300
   \<and> playerY (Update exampleConfig idleInput (1 / 2) exitRestartedGame) = 550
   \<and> exitWindowRequested (Update exampleConfig idleInput (1 / 2) exitRestartedGame)"
proof -
  have pending: "gameOver exitPendingGame" "\<not> firstTimeGameStart exitPendingGame"
      "exitWindowRequested exitPendingGame" "isInExitMenu exitPendingGame"
    unfolding exitPendingGame_def crashedGame_eq
    by (simp_all add: frame_eval exampleConfig_def escInput_def idleInput_def)
  have restarted: "exitWindowRequested exitRestartedGame" "\<not> isInExitMenu exitRestartedGame"
      "is_running exitRestartedGame" "playerY exitRestartedGame = 300"
    unfolding exitRestartedGame_def exitPendingGame_def crashedGame_eq
    by (simp_all add: frame_eval exampleConfig_def escInput_def enterInput_def idleInput_def)
  have advanced: "playerY (Update exampleConfig idleInput (1 / 2) exitRestartedGame) = 550"
      "exitWindowRequested (Update exampleConfig idleInput (1 / 2) exitRestartedGame)"
    unfolding exitRestartedGame_def exitPendingGame_def crashedGame_eq
    by (simp_all add: frame_eval exampleConfig_def escInput_def enterInput_def idleInput_def)
  show ?thesis
    using pending restarted advanced by (simp add: Reset_fields)
qed

subsection \<open>Score and high score through the blocks of a frame\<close>

lemma ui_stage_frame [simp]:
  "uiFrame (uiFullscreen inp g) = uiFrame g"
  "uiFrame (uiFirstStart cfg inp g) = uiFrame g"
  "uiFrame (uiExitMenu inp g) = uiFrame g"
  "uiFrame (uiFocus inp g) = uiFrame g"
  "uiFrame (uiPauseKey cfg inp g) = uiFrame g"
  "uiFrame (snd (uiMobilePause cfg inp g)) = uiFrame g"
  by (simp_all add: uiFrame_def simState_def uiFullscreen_def uiFirstStart_def uiExitMenu_def
      uiFocus_def uiPauseKey_def uiMobilePause_def startGame_def emit_def)

lemma uiAfterExitRequest_frame [simp]:
  "uiFrame (snd (uiAfterExitRequest cfg inp g)) = uiFrame g"
  by (simp add: uiAfterExitRequest_def)

lemma UpdateUI_frame [simp]: "uiFrame (snd (UpdateUI cfg inp g)) = uiFrame g"
proof -
  have "uiFrame (g\<lparr>exitWindowRequested := True, isInExitMenu := True\<rparr>) = uiFrame g"
    by (simp add: uiFrame_def simState_def)
  then show ?thesis by (simp add: UpdateUI_def)
qed

lemma afterUI_frame: "uiFrame (snd (afterUI cfg inp g)) = uiFrame g"
proof -
  have "uiFrame (g\<lparr>screenScale := computeScreenScale cfg inp\<rparr>) = uiFrame g"
    by (simp add: uiFrame_def simState_def)
  then show ?thesis by (simp add: afterUI_def)
qed

lemma afterUI_fields [simp]:
  "simState (snd (afterUI cfg inp g)) = simState g"
  "score (snd (afterUI cfg inp g)) = score g"
  "highScore (snd (afterUI cfg inp g)) = highScore g"
  "musicManuallyDisabled (snd (afterUI cfg inp g)) = musicManuallyDisabled g"
  "gameOver (snd (afterUI cfg inp g)) = gameOver g"
  "gameOverDelayTimer (snd (afterUI cfg inp g)) = gameOverDelayTimer g"
  "width (snd (afterUI cfg inp g)) = width g"
  "height (snd (afterUI cfg inp g)) = height g"
  "basePipeSpeed (snd (afterUI cfg inp g)) = basePipeSpeed g"
  using afterUI_frame[of cfg inp g] by (simp_all add: uiFrame_def simState_def)

lemma neutral_score [simp]:
  "score (scrollBackground cfg dt g) = score g"
  "highScore (scrollBackground cfg dt g) = highScore g"
  "score (serviceMusic g) = score g"
  "highScore (serviceMusic g) = highScore g"
  "score (HandleInput cfg inp g) = score g"
  "highScore (HandleInput cfg inp g) = highScore g"
  "score (UpdatePipeSpeed cfg dt g) = score g"
  "highScore (UpdatePipeSpeed cfg dt g) = highScore g"
  "score (integratePlayer dt g) = score g"
  "highScore (integratePlayer dt g) = highScore g"
  "score (spawnStep cfg inp dt g) = score g"
  "highScore (spawnStep cfg inp dt g) = highScore g"
  "score (removeOffscreen g) = score g"
  "highScore (removeOffscreen g) = highScore g"
  "score (eyesStep dt g) = score g"
  "highScore (eyesStep dt g) = highScore g"
  "score (delayStep dt g) = score g"
  "highScore (delayStep dt g) = highScore g"
  by (simp_all add: scrollBackground_def serviceMusic_def HandleInput_def handleFlap_def
      handleMusicToggle_def UpdatePipeSpeed_def integratePlayer_def spawnStep_def
      removeOffscreen_def eyesStep_def delayStep_def emit_def Let_def)

lemma raiseHighScore_score [simp]:
  "score (raiseHighScore cfg g) = score g"
  "highScore (raiseHighScore cfg g) = max (highScore g) (score g)"
  by (simp_all add: raiseHighScore_def SaveHighScore_def emit_def)

lemma onCollision_score [simp]:
  "score (onCollision cfg g) = score g"
  "highScore (onCollision cfg g) = max (highScore g) (score g)"
  by (simp_all add: onCollision_def emit_def)

lemma boundaryStep_score [simp]:
  "score (boundaryStep cfg boxH g) = score g"
  "highScore g \<le> highScore (boundaryStep cfg boxH g)"
  "highScore (boundaryStep cfg boxH g) \<le> max (highScore g) (score g)"
  by (simp_all add: boundaryStep_def)

lemma collisionCheck_score [simp]:
  "score (collisionCheck cfg boxW boxH g p) = score g"
  "highScore g \<le> highScore (collisionCheck cfg boxW boxH g p)"
  "highScore (collisionCheck cfg boxW boxH g p) \<le> max (highScore g) (score g)"
  by (simp_all add: collisionCheck_def)

lemma scoreCheck_passed:
  "playerX g > pipe_x p + pipeWidth g \<Longrightarrow> \<not> scored p \<Longrightarrow>
     score (fst (scoreCheck cfg g p)) = score g + 1 \<and> scored (snd (scoreCheck cfg g p))
     \<and> score g + 1 \<le> highScore (fst (scoreCheck cfg g p))
     \<and> pipe_x (snd (scoreCheck cfg g p)) = pipe_x p
     \<and> gapCenter (snd (scoreCheck cfg g p)) = gapCenter p"
  by (simp add: scoreCheck_def emit_def)

lemma scoreCheck_idle:
  "scored p \<or> \<not> playerX g > pipe_x p + pipeWidth g \<Longrightarrow> scoreCheck cfg g p = (g, p)"
  by (auto simp add: scoreCheck_def)

lemma scoreCheck_twice:
  "scoreCheck cfg (fst (scoreCheck cfg g p)) (snd (scoreCheck cfg g p)) = scoreCheck cfg g p"
  by (simp add: scoreCheck_def)

lemma scoreCheck_frame_fields [simp]:
  "playerX (fst (scoreCheck cfg g p)) = playerX g"
  "pipeWidth (fst (scoreCheck cfg g p)) = pipeWidth g"
  "pipeSpeed (fst (scoreCheck cfg g p)) = pipeSpeed g"
  by (simp_all add: scoreCheck_def raiseHighScore_def SaveHighScore_def emit_def)

lemma collision_frame_fields [simp]:
  "playerX (collisionCheck cfg boxW boxH g p) = playerX g"
  "pipeWidth (collisionCheck cfg boxW boxH g p) = pipeWidth g"
  "pipeSpeed (collisionCheck cfg boxW boxH g p) = pipeSpeed g"
  by (simp_all add: collisionCheck_def onCollision_def raiseHighScore_def SaveHighScore_def emit_def)

lemma pipeStep_fields [simp]:
  "playerX (fst (pipeStep cfg dt boxW boxH g p)) = playerX g"
  "pipeWidth (fst (pipeStep cfg dt boxW boxH g p)) = pipeWidth g"
  "pipeSpeed (fst (pipeStep cfg dt boxW boxH g p)) = pipeSpeed g"
  by (simp_all add: pipeStep_def Let_def split_beta)

lemma pipeStep_pipe: "snd (pipeStep cfg dt boxW boxH g p) = advancePipe dt g p"
  by (cases p) (auto simp add: pipeStep_def scoreCheck_def advancePipe_def newlyPassed_def Let_def)

lemma pipeStep_score:
  "score (fst (pipeStep cfg dt boxW boxH g p)) = score g + (if newlyPassed dt g p then 1 else 0)"
  by (simp add: pipeStep_def scoreCheck_def newlyPassed_def Let_def split_beta emit_def)

lemma pipeStep_highScore:
  "score g \<le> highScore g \<Longrightarrow>
     score (fst (pipeStep cfg dt boxW boxH g p)) \<le> highScore (fst (pipeStep cfg dt boxW boxH g p))"
proof -
  assume inv: "score g \<le> highScore g"
  let ?c = "scoreCheck cfg g (p\<lparr>pipe_x := pipe_x p - pipeSpeed g * dt\<rparr>)"
  have 1: "score (fst ?c) \<le> highScore (fst ?c)"
    using inv by (simp add: scoreCheck_def emit_def)
  have 2: "highScore (fst ?c) \<le> highScore (collisionCheck cfg boxW boxH (fst ?c) (snd ?c))"
    by simp
  have "score (fst ?c) \<le> highScore (collisionCheck cfg boxW boxH (fst ?c) (snd ?c))"
    using 1 2 by (rule order_trans)
  then show ?thesis by (simp add: pipeStep_def Let_def split_beta)
qed

lemma pipeLoop_fields:
  "playerX (fst (pipeLoop cfg dt boxW boxH g ps)) = playerX g
   \<and> pipeWidth (fst (pipeLoop cfg dt boxW boxH g ps)) = pipeWidth g
   \<and> pipeSpeed (fst (pipeLoop cfg dt boxW boxH g ps)) = pipeSpeed g"
  by (induction ps arbitrary: g) (simp_all add: split_beta Let_def)

lemma newlyPassed_cong:
  "playerX g' = playerX g \<Longrightarrow> pipeWidth g' = pipeWidth g \<Longrightarrow> pipeSpeed g' = pipeSpeed g \<Longrightarrow>
     newlyPassed dt g' = newlyPassed dt g"
  by (simp add: newlyPassed_def fun_eq_iff)

lemma advancePipe_cong:
  "playerX g' = playerX g \<Longrightarrow> pipeWidth g' = pipeWidth g \<Longrightarrow> pipeSpeed g' = pipeSpeed g \<Longrightarrow>
     advancePipe dt g' = advancePipe dt g"
  by (simp add: advancePipe_def newlyPassed_def fun_eq_iff)

lemma pipeLoop_pipes: "snd (pipeLoop cfg dt boxW boxH g ps) = map (advancePipe dt g) ps"
proof (induction ps arbitrary: g)
  case Nil
  show ?case by simp
next
  case (Cons p ps)
  let ?g1 = "fst (pipeStep cfg dt boxW boxH g p)"
  have "advancePipe dt ?g1 = advancePipe dt g" by (rule advancePipe_cong) simp_all
  then show ?case using Cons[of ?g1] by (simp add: split_beta Let_def pipeStep_pipe)
qed

lemma pipeLoop_score:
  "score (fst (pipeLoop cfg dt boxW boxH g ps))
     = score g + int (length (filter (newlyPassed dt g) ps))"
proof (induction ps arbitrary: g)
  case Nil
  show ?case by simp
next
  case (Cons p ps)
  let ?g1 = "fst (pipeStep cfg dt boxW boxH g p)"
  have "newlyPassed dt ?g1 = newlyPassed dt g" by (rule newlyPassed_cong) simp_all
  then show ?case using Cons[of ?g1] by (simp add: split_beta Let_def pipeStep_score)
qed

lemma pipeLoop_highScore:
  "score g \<le> highScore g \<Longrightarrow>
     score (fst (pipeLoop cfg dt boxW boxH g ps)) \<le> highScore (fst (pipeLoop cfg dt boxW boxH g ps))"
proof (induction ps arbitrary: g)
  case Nil
  then show ?case by simp
next
  case (Cons p ps)
  have "score (fst (pipeStep cfg dt boxW boxH g p)) \<le> highScore (fst (pipeStep cfg dt boxW boxH g p))"
    using Cons.prems by (rule pipeStep_highScore)
  from Cons.IH[OF this] show ?case by (simp add: split_beta Let_def)
qed

lemma movePipes_score:
  "score (movePipes cfg dt boxW boxH g) = score g + int (length (filter (newlyPassed dt g) (pipes g)))"
  "pipes (movePipes cfg dt boxW boxH g) = map (advancePipe dt g) (pipes g)"
  "score g \<le> highScore g \<Longrightarrow>
     score (movePipes cfg dt boxW boxH g) \<le> highScore (movePipes cfg dt boxW boxH g)"
  using pipeLoop_highScore[of g cfg dt boxW boxH "pipes g"]
  by (simp_all add: movePipes_def split_beta pipeLoop_score pipeLoop_pipes)

lemma runningFrame_score:
  "score g \<le> score (runningFrame cfg inp dt g)"
  "score g \<le> highScore g \<Longrightarrow> score (runningFrame cfg inp dt g) \<le> highScore (runningFrame cfg inp dt g)"
proof -
  show "score g \<le> score (runningFrame cfg inp dt g)"
    by (simp add: runningFrame_comp movePipes_score(1))
next
  assume inv: "score g \<le> highScore g"
  let ?pre = "integratePlayer dt (UpdatePipeSpeed cfg dt (HandleInput cfg inp g))"
  let ?b = "boundaryStep cfg (collisionBoxHeight ?pre) ?pre"
  have "score ?b \<le> highScore ?b"
    using inv boundaryStep_score(2)[of ?pre cfg "collisionBoxHeight ?pre"] by simp
  then have "score (spawnStep cfg inp dt ?b) \<le> highScore (spawnStep cfg inp dt ?b)" by simp
  from movePipes_score(3)[OF this]
  show "score (runningFrame cfg inp dt g) \<le> highScore (runningFrame cfg inp dt g)"
    by (simp add: runningFrame_comp)
qed

lemma simulate_score:
  "score g \<le> score (simulate cfg inp dt g)"
  "score g \<le> highScore g \<Longrightarrow> score (simulate cfg inp dt g) \<le> highScore (simulate cfg inp dt g)"
  using runningFrame_score[of "serviceMusic (scrollBackground cfg dt g)" cfg inp dt]
  by (simp_all add: simulate_comp)

lemma gameOverStep_cases:
  "gameOverStep cfg inp dt g =
     (if restartFires cfg inp dt g then Reset cfg inp (delayStep dt g)
      else if gameOver g then delayStep dt g else g)"
  by (simp add: gameOverStep_def restartFires_def Let_def)

lemma Update_score_monotone:
  "\<not> frameRestarts cfg inp dt g \<Longrightarrow> score g \<le> score (Update cfg inp dt g)"
  using simulate_score(1)[of "snd (afterUI cfg inp g)" cfg inp dt]
  by (auto simp add: Update_comp frameRestarts_def gameOverStep_cases)

lemma Update_restart_score:
  "frameRestarts cfg inp dt g \<Longrightarrow> score (Update cfg inp dt g) = 0"
  by (simp add: Update_comp frameRestarts_def gameOverStep_cases Reset_fields)

lemma Update_score_inv:
  assumes "0 \<le> score g" "score g \<le> highScore g"
  shows "0 \<le> score (Update cfg inp dt g) \<and> score (Update cfg inp dt g) \<le> highScore (Update cfg inp dt g)"
proof -
  let ?u = "snd (afterUI cfg inp g)"
  let ?s = "simulate cfg inp dt ?u"
  have u: "0 \<le> score ?u" "score ?u \<le> highScore ?u" using assms by simp_all
  have s1: "0 \<le> score ?s" using u(1) simulate_score(1)[of ?u cfg inp dt] by linarith
  have s2: "score ?s \<le> highScore ?s" using u(2) by (rule simulate_score(2))
  show ?thesis using assms s1 s2
    by (simp add: Update_comp gameOverStep_cases Reset_fields)
qed

lemma Update_score_nonneg:
  assumes "0 \<le> score g"
  shows "0 \<le> score (Update cfg inp dt g)"
proof (cases "frameRestarts cfg inp dt g")
  case True
  then show ?thesis by (simp add: Update_restart_score)
next
  case False
  then have "score g \<le> score (Update cfg inp dt g)" by (rule Update_score_monotone)
  then show ?thesis using assms by linarith
qed

lemma reachable_score_nonneg: "reachable cfg g \<Longrightarrow> 0 \<le> score g"
proof (induction rule: reachable.induct)
  case (constructed inp f w h g0)
  show ?case by (simp add: Game_fields)
next
  case (frame g inp dt)
  from frame.IH show ?case by (rule Update_score_nonneg)
qed

subsection \<open>A scoring event or a collision raises the high score\<close>

lemma neutral_scoreFrame [simp]:
  "scoreFrame (scrollBackground cfg dt g) = scoreFrame g"
  "scoreFrame (serviceMusic g) = scoreFrame g"
  "scoreFrame (HandleInput cfg inp g) = scoreFrame g"
  "scoreFrame (UpdatePipeSpeed cfg dt g) = scoreFrame g"
  "scoreFrame (integratePlayer dt g) = scoreFrame g"
  "scoreFrame (spawnStep cfg inp dt g) = scoreFrame g"
  "scoreFrame (removeOffscreen g) = scoreFrame g"
  "scoreFrame (eyesStep dt g) = scoreFrame g"
  by (simp_all add: scoreFrame_def scrollBackground_def serviceMusic_def HandleInput_def
      handleFlap_def handleMusicToggle_def UpdatePipeSpeed_def integratePlayer_def
      spawnStep_def removeOffscreen_def eyesStep_def emit_def Let_def)

lemma afterUI_scoreFrame [simp]: "scoreFrame (snd (afterUI cfg inp g)) = scoreFrame g"
  by (simp add: scoreFrame_def)

lemma onCollision_raised: "score (onCollision cfg g) \<le> highScore (onCollision cfg g)"
  by simp

lemma scoreCheck_raised:
  "playerX g > pipe_x p + pipeWidth g \<Longrightarrow> \<not> scored p \<Longrightarrow>
     highScore (fst (scoreCheck cfg g p)) = max (highScore g) (score g + 1)"
  by (simp add: scoreCheck_def emit_def)

lemma boundaryStep_event:
  "score (boundaryStep cfg boxH g) \<le> highScore (boundaryStep cfg boxH g)
   \<or> scoreFrame (boundaryStep cfg boxH g) = scoreFrame g"
  by (simp add: boundaryStep_def onCollision_raised)

lemma collisionCheck_event:
  "score (collisionCheck cfg boxW boxH g p) \<le> highScore (collisionCheck cfg boxW boxH g p)
   \<or> collisionCheck cfg boxW boxH g p = g"
  by (simp add: collisionCheck_def onCollision_raised)

lemma scoreCheck_event:
  "score (fst (scoreCheck cfg g p)) \<le> highScore (fst (scoreCheck cfg g p))
   \<or> fst (scoreCheck cfg g p) = g"
  by (simp add: scoreCheck_def emit_def)

lemma pipeStep_event:
  "score (fst (pipeStep cfg dt boxW boxH g p)) \<le> highScore (fst (pipeStep cfg dt boxW boxH g p))
   \<or> scoreFrame (fst (pipeStep cfg dt boxW boxH g p)) = scoreFrame g"
proof -
  let ?c = "scoreCheck cfg g (p\<lparr>pipe_x := pipe_x p - pipeSpeed g * dt\<rparr>)"
  let ?k = "collisionCheck cfg boxW boxH (fst ?c) (snd ?c)"
  have step: "fst (pipeStep cfg dt boxW boxH g p) = ?k"
    by (simp add: pipeStep_def Let_def split_beta)
  consider (scored) "score (fst ?c) \<le> highScore (fst ?c)" | (idle) "fst ?c = g"
    using scoreCheck_event by blast
  then show ?thesis
  proof cases
    case scored
    have kept: "score ?k = score (fst ?c)" by simp
    have "highScore (fst ?c) \<le> highScore ?k" by simp
    then have "score ?k \<le> highScore ?k" using scored kept by linarith
    then show ?thesis by (simp add: step)
  next
    case idle
    consider (hit) "score ?k \<le> highScore ?k" | (miss) "?k = fst ?c"
      using collisionCheck_event by blast
    then show ?thesis
    proof cases
      case hit
      then show ?thesis by (simp add: step)
    next
      case miss
      then have "?k = g" using idle by simp
      then show ?thesis by (simp add: step)
    qed
  qed
qed

lemma pipeLoop_event:
  "score (fst (pipeLoop cfg dt boxW boxH g ps)) \<le> highScore (fst (pipeLoop cfg dt boxW boxH g ps))
   \<or> scoreFrame (fst (pipeLoop cfg dt boxW boxH g ps)) = scoreFrame g"
proof (induction ps arbitrary: g)
  case Nil
  show ?case by simp
next
  case (Cons p ps)
  let ?g1 = "fst (pipeStep cfg dt boxW boxH g p)"
  have loop: "fst (pipeLoop cfg dt boxW boxH g (p # ps)) = fst (pipeLoop cfg dt boxW boxH ?g1 ps)"
    by (simp add: split_beta Let_def)
  consider (raised) "score ?g1 \<le> highScore ?g1" | (same) "scoreFrame ?g1 = scoreFrame g"
    using pipeStep_event by blast
  then show ?case
  proof cases
    case raised
    then show ?thesis unfolding loop by (simp add: pipeLoop_highScore)
  next
    case same
    then show ?thesis unfolding loop using Cons.IH[of ?g1] by simp
  qed
qed

lemma movePipes_event:
  "score (movePipes cfg dt boxW boxH g) \<le> highScore (movePipes cfg dt boxW boxH g)
   \<or> scoreFrame (movePipes cfg dt boxW boxH g) = scoreFrame g"
  using pipeLoop_event[of cfg dt boxW boxH g "pipes g"]
  by (simp add: movePipes_def split_beta scoreFrame_def)

lemma runningFrame_event:
  "score (runningFrame cfg inp dt g) \<le> highScore (runningFrame cfg inp dt g)
   \<or> scoreFrame (runningFrame cfg inp dt g) = scoreFrame g"
proof -
  let ?pre = "integratePlayer dt (UpdatePipeSpeed cfg dt (HandleInput cfg inp g))"
  let ?b = "boundaryStep cfg (collisionBoxHeight ?pre) ?pre"
  let ?sp = "spawnStep cfg inp dt ?b"
  let ?m = "movePipes cfg dt (collisionBoxWidth ?pre) (collisionBoxHeight ?pre) ?sp"
  have pre: "scoreFrame ?pre = scoreFrame g" by simp
  have frame: "scoreFrame (runningFrame cfg inp dt g) = scoreFrame ?m"
    by (simp add: runningFrame_comp)
  have fields: "score (runningFrame cfg inp dt g) = score ?m"
      "highScore (runningFrame cfg inp dt g) = highScore ?m"
    using frame by (simp_all add: scoreFrame_def)
  consider (raised) "score ?b \<le> highScore ?b" | (same) "scoreFrame ?b = scoreFrame ?pre"
    using boundaryStep_event by blast
  then show ?thesis
  proof cases
    case raised
    then have "score ?sp \<le> highScore ?sp" by simp
    then have "score ?m \<le> highScore ?m" by (rule movePipes_score(3))
    then show ?thesis by (simp add: fields)
  next
    case same
    then have sp: "scoreFrame ?sp = scoreFrame g" using pre by simp
    consider (raised) "score ?m \<le> highScore ?m" | (still) "scoreFrame ?m = scoreFrame ?sp"
      using movePipes_event by blast
    then show ?thesis
    proof cases
      case raised
      then show ?thesis by (simp add: fields)
    next
      case still
      then show ?thesis using sp frame by simp
    qed
  qed
qed

lemma simulate_event:
  "score (simulate cfg inp dt g) \<le> highScore (simulate cfg inp dt g)
   \<or> scoreFrame (simulate cfg inp dt g) = scoreFrame g"
  using runningFrame_event[of cfg inp dt "serviceMusic (scrollBackground cfg dt g)"]
  by (simp add: simulate_comp)

lemma gameOverStep_keeps_raised:
  "0 \<le> score g \<Longrightarrow> score g \<le> highScore g \<Longrightarrow>
     score (gameOverStep cfg inp dt g) \<le> highScore (gameOverStep cfg inp dt g)"
  by (simp add: gameOverStep_cases Reset_fields)

lemma Update_event_raises:
  assumes nonneg: "0 \<le> score g"
    and frame: "dt \<noteq> 0" "\<not> fst (afterUI cfg inp g)"
    and event: "score (simulate cfg inp dt (snd (afterUI cfg inp g))) \<noteq> score g
                \<or> (\<not> gameOver g \<and> gameOver (simulate cfg inp dt (snd (afterUI cfg inp g))))"
  shows "score (Update cfg inp dt g) \<le> highScore (Update cfg inp dt g)"
proof -
  let ?u = "snd (afterUI cfg inp g)"
  let ?s = "simulate cfg inp dt ?u"
  have "scoreFrame ?s \<noteq> scoreFrame g" using event by (auto simp add: scoreFrame_def)
  then have "scoreFrame ?s \<noteq> scoreFrame ?u" by simp
  then have raised: "score ?s \<le> highScore ?s" using simulate_event[of cfg inp dt ?u] by blast
  have "score ?u \<le> score ?s" by (rule simulate_score(1))
  then have "0 \<le> score ?s" using nonneg by simp
  then have "score (gameOverStep cfg inp dt ?s) \<le> highScore (gameOverStep cfg inp dt ?s)"
    using raised by (rule gameOverStep_keeps_raised)
  then show ?thesis using frame by (simp add: Update_comp)
qed

lemma Game_score_inv:
  "EMSCRIPTEN cfg \<or> (case stored of Holds v \<Rightarrow> 0 \<le> v | NoNumber \<Rightarrow> 0 \<le> highScore g0 | CannotOpen \<Rightarrow> True)
     \<Longrightarrow> score (Game cfg inp stored w h g0) \<le> highScore (Game cfg inp stored w h g0)"
  by (auto simp add: Game_fields split: highscore_file.splits)

subsection \<open>Scoring\<close>

text \<open>
  Claim C2. The scoring test raises the score by exactly 1 and sets the obstacle's
  \<open>scored\<close> flag when the player's horizontal position is strictly beyond the
  obstacle's right edge \<open>x + width\<close> and the flag is clear; in every other case, and in
  particular on an obstacle already scored, it changes nothing, so that a repeated test
  leaves the score as it is. Over the loop of a frame the score grows by the number of
  obstacles that are newly passed, each of which leaves the loop flagged. The score
  therefore never decreases through the simulation of a frame, nor through a whole
  frame of a run; the frame that restarts ends the run and begins the next at 0.
\<close>

theorem score_counts_each_obstacle_once:
  "(playerX g > pipe_x p + pipeWidth g \<and> \<not> scored p \<longrightarrow>
      score (fst (scoreCheck cfg g p)) = score g + 1 \<and> scored (snd (scoreCheck cfg g p)))
   \<and> (scored p \<or> \<not> playerX g > pipe_x p + pipeWidth g \<longrightarrow> scoreCheck cfg g p = (g, p))
   \<and> scoreCheck cfg (fst (scoreCheck cfg g p)) (snd (scoreCheck cfg g p)) = scoreCheck cfg g p
   \<and> score (movePipes cfg dt boxW boxH g)
       = score g + int (length (filter (newlyPassed dt g) (pipes g)))
   \<and> pipes (movePipes cfg dt boxW boxH g) = map (advancePipe dt g) (pipes g)
   \<and> score g \<le> score (simulate cfg inp dt g)
   \<and> (\<not> frameRestarts cfg inp dt g \<longrightarrow> score g \<le> score (Update cfg inp dt g))
   \<and> (frameRestarts cfg inp dt g \<longrightarrow> score (Update cfg inp dt g) = 0)"
  using scoreCheck_passed[of p g cfg] scoreCheck_idle[of p g cfg] scoreCheck_twice[of cfg g p]
    movePipes_score(1,2)[of cfg dt boxW boxH g] simulate_score(1)[of g cfg inp dt]
    Update_score_monotone[of cfg inp dt g] Update_restart_score[of cfg inp dt g]
  by blast

theorem score_witness:
  "playerX newGame > pipe_x (examplePipe\<lparr>pipe_x := 100\<rparr>) + pipeWidth newGame
   \<and> \<not> scored (examplePipe\<lparr>pipe_x := 100\<rparr>)
   \<and> score (fst (scoreCheck exampleConfig newGame (examplePipe\<lparr>pipe_x := 100\<rparr>))) = 1
   \<and> scored (snd (scoreCheck exampleConfig newGame (examplePipe\<lparr>pipe_x := 100\<rparr>)))
   \<and> \<not> playerX newGame > pipe_x examplePipe + pipeWidth newGame
   \<and> scoreCheck exampleConfig newGame examplePipe = (newGame, examplePipe)
   \<and> \<not> frameRestarts exampleConfig idleInput 1 crashedGame
   \<and> score crashedGame \<le> score (Update exampleConfig idleInput 1 crashedGame)
   \<and> frameRestarts exampleConfig enterInput 1 crashedGame
   \<and> score (Update exampleConfig enterInput 1 crashedGame) = 0"
proof -
  have stay: "\<not> frameRestarts exampleConfig idleInput 1 crashedGame"
    unfolding crashedGame_eq frameRestarts_def restartFires_def
    by (simp add: simulate_comp stage_defs exampleConfig_def idleInput_def)
  have go: "frameRestarts exampleConfig enterInput 1 crashedGame"
    unfolding crashedGame_eq frameRestarts_def restartFires_def
    by (simp add: simulate_comp stage_defs exampleConfig_def enterInput_def idleInput_def)
  have passed: "playerX newGame > pipe_x (examplePipe\<lparr>pipe_x := 100\<rparr>) + pipeWidth newGame"
      "\<not> scored (examplePipe\<lparr>pipe_x := 100\<rparr>)"
    and ahead: "\<not> playerX newGame > pipe_x examplePipe + pipeWidth newGame"
    and zero: "score newGame = 0"
    by (simp_all add: newGame_eq examplePipe_def)
  show ?thesis
    using stay go passed ahead zero
      score_counts_each_obstacle_once[where g = newGame and cfg = exampleConfig
        and p = "examplePipe\<lparr>pipe_x := 100\<rparr>"]
      score_counts_each_obstacle_once[where g = newGame and cfg = exampleConfig
        and p = examplePipe]
      score_counts_each_obstacle_once[where g = crashedGame and cfg = exampleConfig
        and inp = idleInput and dt = 1]
      score_counts_each_obstacle_once[where g = crashedGame and cfg = exampleConfig
        and inp = enterInput and dt = 1]
    by simp
qed

subsection \<open>High score\<close>

lemma negativeFileGame_eq:
  "negativeFileGame =
     \<lparr>firstTimeGameStart = True, isInExitMenu = False, paused = False,
      lostWindowFocus = False, gameOver = False, exitWindowRequested = False,
      exitWindow = False, fullscreen = False, screenScale = 1, width = 800,
      height = 600, playerSize = 80, playerX = 200, playerY = 300,
      playerVelocity = 0, playerCollisionWidthRatio = 7 / 10,
      playerCollisionHeightRatio = 11 / 20, gravity = 1000, jumpForce = - 400,
      pipeWidth = 80, pipeGap = 200, pipeSpeed = 200, basePipeSpeed = 200,
      pipeSpawnInterval = 2, pipeSpawnTimer = 2, initialPipeDistance = 400,
      speedLevel = 0, pipes = [], score = 0, highScore = - 5,
      musicPlaying = False, musicManuallyDisabled = False,
      backgroundScrollX = 0, backgroundScrollSpeed = 40,
      playerEyesClosedTimer = 0, gameOverDelayTimer = 0, events = []\<rparr>"
  by (simp add: negativeFileGame_def Game_def LoadHighScore_def InitGame_def
      computeScreenScale_def exampleConfig_def idleInput_def blankGame_def MINf_def
      int_div_def Let_def)

text \<open>
  Claim C10, as the code has it. The high score is raised only where the code compares
  it with the score: at a scoring event and at a collision, each of which leaves the
  high score at the larger of the two. So in every state that a game reaches, a
  per-frame update keeps \<open>highScore \<ge> score\<close> when it held before the frame, and
  establishes it when a scoring event or a collision happens in the frame. It holds
  from construction when the high-score file is absent or holds a number that is not
  negative.
\<close>

theorem high_score_raised_with_score:
  assumes "reachable cfg g"
  shows "(score g \<le> highScore g \<longrightarrow>
            score (Update cfg inp dt g) \<le> highScore (Update cfg inp dt g))
       \<and> (dt \<noteq> 0 \<and> \<not> fst (afterUI cfg inp g)
            \<and> (score (simulate cfg inp dt (snd (afterUI cfg inp g))) \<noteq> score g
                \<or> (\<not> gameOver g \<and> gameOver (simulate cfg inp dt (snd (afterUI cfg inp g)))))
            \<longrightarrow> score (Update cfg inp dt g) \<le> highScore (Update cfg inp dt g))
       \<and> (playerX g > pipe_x p + pipeWidth g \<and> \<not> scored p \<longrightarrow>
            highScore (fst (scoreCheck cfg g p)) = max (highScore g) (score g + 1))
       \<and> highScore (onCollision cfg g) = max (highScore g) (score g)
       \<and> (EMSCRIPTEN cfg
            \<or> (case stored of Holds v \<Rightarrow> 0 \<le> v | NoNumber \<Rightarrow> 0 \<le> highScore g0
                | CannotOpen \<Rightarrow> True)
            \<longrightarrow> score (Game cfg inp0 stored w h g0) \<le> highScore (Game cfg inp0 stored w h g0))"
proof -
  have nonneg: "0 \<le> score g" using assms by (rule reachable_score_nonneg)
  show ?thesis
    using Update_score_inv[OF nonneg, where cfg = cfg and inp = inp and dt = dt]
      Update_event_raises[OF nonneg, where cfg = cfg and inp = inp and dt = dt]
      scoreCheck_raised[where p = p and g = g and cfg = cfg]
      onCollision_score(2)[where cfg = cfg and g = g]
      Game_score_inv[where cfg = cfg and stored = stored and ?g0.0 = g0 and inp = inp0 and w = w
        and h = h]
    by blast
qed

theorem high_score_witness:
  "reachable exampleConfig newGame \<and> score newGame = 0 \<and> highScore newGame = 0
   \<and> (4::real) \<noteq> 0 \<and> \<not> fst (afterUI exampleConfig startInput newGame)
   \<and> score (simulate exampleConfig startInput 4 (snd (afterUI exampleConfig startInput newGame))) = 1
   \<and> score scoredGame = 1 \<and> highScore scoredGame = 1
   \<and> score scoredGame \<le> highScore scoredGame
   \<and> reachable exampleConfig negativeFileGame \<and> highScore negativeFileGame = - 5
   \<and> \<not> gameOver negativeFileGame
   \<and> gameOver (simulate exampleConfig startInput 1
                  (snd (afterUI exampleConfig startInput negativeFileGame)))
   \<and> score (Update exampleConfig startInput 1 negativeFileGame) = 0
   \<and> highScore (Update exampleConfig startInput 1 negativeFileGame) = 0
   \<and> score (Update exampleConfig startInput 1 negativeFileGame)
       \<le> highScore (Update exampleConfig startInput 1 negativeFileGame)"
proof -
  have r1: "reachable exampleConfig newGame"
    unfolding newGame_def by (rule reachable.constructed)
  have r2: "reachable exampleConfig negativeFileGame"
    unfolding negativeFileGame_def by (rule reachable.constructed)
  have start: "score newGame = 0" "highScore newGame = 0"
      "\<not> fst (afterUI exampleConfig startInput newGame)"
      "score (simulate exampleConfig startInput 4
                (snd (afterUI exampleConfig startInput newGame))) = 1"
    unfolding newGame_eq
    by (simp_all add: simulate_comp runningFrame_comp stage_defs Let_def exampleConfig_def
        startInput_def idleInput_def)
  have scored: "score scoredGame = 1" "highScore scoredGame = 1"
    unfolding scoredGame_def newGame_eq
    by (simp_all add: frame_eval exampleConfig_def startInput_def idleInput_def)
  have neg: "highScore negativeFileGame = - 5" "\<not> gameOver negativeFileGame"
      "\<not> fst (afterUI exampleConfig startInput negativeFileGame)"
      "gameOver (simulate exampleConfig startInput 1
                   (snd (afterUI exampleConfig startInput negativeFileGame)))"
    unfolding negativeFileGame_eq
    by (simp_all add: simulate_comp runningFrame_comp stage_defs Let_def exampleConfig_def
        startInput_def idleInput_def)
  have crashed: "score (Update exampleConfig startInput 1 negativeFileGame) = 0"
      "highScore (Update exampleConfig startInput 1 negativeFileGame) = 0"
    unfolding negativeFileGame_eq
    by (simp_all add: frame_eval exampleConfig_def startInput_def idleInput_def)
  show ?thesis
    using r1 r2 start scored neg crashed
      high_score_raised_with_score[OF r1, where inp = startInput and dt = 4]
      high_score_raised_with_score[OF r2, where inp = startInput and dt = 1]
    unfolding scoredGame_def by simp
qed

text \<open>
  Claim C10 as it was stated fails when \<^verbatim>\<open>highscore.txt\<close> holds a negative number, which
  \<^verbatim>\<open>LoadHighScore\<close> stores unchecked: the score 0 is above the high score from the
  construction on, and a frame without a scoring event or a collision, on the welcome
  screen or running, leaves it so.
\<close>

theorem high_score_counterexample:
  "reachable exampleConfig negativeFileGame
   \<and> score (Update exampleConfig idleInput 1 negativeFileGame) = 0
   \<and> highScore (Update exampleConfig idleInput 1 negativeFileGame) = - 5
   \<and> \<not> score (Update exampleConfig idleInput 1 negativeFileGame)
         \<le> highScore (Update exampleConfig idleInput 1 negativeFileGame)
   \<and> is_running (Update exampleConfig startInput (1 / 60) negativeFileGame)
   \<and> score (Update exampleConfig startInput (1 / 60) negativeFileGame) = 0
   \<and> highScore (Update exampleConfig startInput (1 / 60) negativeFileGame) = - 5"
proof -
  have r: "reachable exampleConfig negativeFileGame"
    unfolding negativeFileGame_def by (rule reachable.constructed)
  have idle: "score (Update exampleConfig idleInput 1 negativeFileGame) = 0"
      "highScore (Update exampleConfig idleInput 1 negativeFileGame) = - 5"
    unfolding negativeFileGame_eq
    by (simp_all add: frame_eval exampleConfig_def idleInput_def)
  have running: "is_running (Update exampleConfig startInput (1 / 60) negativeFileGame)"
      "score (Update exampleConfig startInput (1 / 60) negativeFileGame) = 0"
      "highScore (Update exampleConfig startInput (1 / 60) negativeFileGame) = - 5"
    unfolding negativeFileGame_eq
    by (simp_all add: frame_eval exampleConfig_def startInput_def idleInput_def)
  show ?thesis using r idle running by simp
qed

subsection \<open>Frozen frames\<close>

lemma serviceMusic_frame [simp]: "uiFrame (serviceMusic g) = uiFrame g"
  by (simp add: serviceMusic_def uiFrame_def simState_def emit_def)

lemma delayStep_simState [simp]: "simState (delayStep dt g) = simState g"
  by (simp add: delayStep_def simState_def Let_def)

lemma serviceMusic_fields [simp]:
  "simState (serviceMusic g) = simState g"
  "gameOver (serviceMusic g) = gameOver g"
  "gameOverDelayTimer (serviceMusic g) = gameOverDelayTimer g"
  "width (serviceMusic g) = width g"
  "height (serviceMusic g) = height g"
  "basePipeSpeed (serviceMusic g) = basePipeSpeed g"
  "musicManuallyDisabled (serviceMusic g) = musicManuallyDisabled g"
  "musicPlaying (serviceMusic g) = musicPlaying g"
  by (simp_all add: serviceMusic_def simState_def emit_def)

lemma delayStep_fields [simp]:
  "gameOver (delayStep dt g) = gameOver g"
  "width (delayStep dt g) = width g"
  "height (delayStep dt g) = height g"
  "basePipeSpeed (delayStep dt g) = basePipeSpeed g"
  "musicManuallyDisabled (delayStep dt g) = musicManuallyDisabled g"
  "musicPlaying (delayStep dt g) = musicPlaying g"
  by (simp_all add: delayStep_def Let_def)

lemma restartFires_serviceMusic [simp]:
  "restartFires cfg inp dt (serviceMusic g) = restartFires cfg inp dt g"
  by (simp add: restartFires_def delayStep_def Let_def)

lemma restartFires_afterUI:
  "restartFires cfg inp dt (snd (afterUI cfg inp g)) = restartFires cfg inp dt g"
  by (simp add: restartFires_def delayStep_def Let_def)

lemma simState_Reset:
  "simState (Reset cfg inp g) =
     (real_of_int (int_div (width g) 4), real_of_int (int_div (height g) 2), 0, [], 0,
      basePipeSpeed g)"
  by (simp add: simState_def Reset_fields)

text \<open>
  Claim C6, as the code has it. \<^verbatim>\<open>Update\<close> first lets \<^verbatim>\<open>UpdateUI\<close> settle the mode
  flags of the frame. If \<^verbatim>\<open>UpdateUI\<close> asks to skip the frame, or if one of the five flags
  (first-start, paused, focus-lost, exit-menu, game-over) is set after it and the
  game-over restart does not fire, then the player's position and velocity, the
  obstacles, the score and \<open>pipeSpeed\<close> are after the update what they were before;
  a frame that starts in game-over is such a frame unless the restart fires.
  If the restart fires (game over, the delay elapsed after this frame's decrement, the
  confirm input present) the frame puts them back to their run-start values.
\<close>

theorem frozen_frame_keeps_simulation_state:
  "(fst (afterUI cfg inp g)
      \<or> (\<not> is_running (snd (afterUI cfg inp g))
          \<and> \<not> restartFires cfg inp dt (snd (afterUI cfg inp g)))
      \<longrightarrow> simState (Update cfg inp dt g) = simState g)
   \<and> (dt \<noteq> 0 \<and> \<not> fst (afterUI cfg inp g) \<and> \<not> is_running (snd (afterUI cfg inp g))
        \<and> restartFires cfg inp dt (snd (afterUI cfg inp g))
      \<longrightarrow> simState (Update cfg inp dt g)
            = (real_of_int (int_div (width g) 4), real_of_int (int_div (height g) 2), 0, [], 0,
               basePipeSpeed g))
   \<and> (gameOver g \<and> \<not> restartFires cfg inp dt g \<longrightarrow>
        simState (Update cfg inp dt g) = simState g)"
  using restartFires_afterUI[of cfg inp dt g]
  by (simp add: Update_comp simulate_comp gameOverStep_cases simState_Reset is_running_def)

theorem frozen_frame_witness:
  "\<not> fst (afterUI exampleConfig idleInput crashedGame)
   \<and> \<not> is_running (snd (afterUI exampleConfig idleInput crashedGame))
   \<and> \<not> restartFires exampleConfig idleInput 1 (snd (afterUI exampleConfig idleInput crashedGame))
   \<and> simState (Update exampleConfig idleInput 1 crashedGame) = simState crashedGame
   \<and> \<not> fst (afterUI exampleConfig enterInput crashedGame)
   \<and> \<not> is_running (snd (afterUI exampleConfig enterInput crashedGame))
   \<and> restartFires exampleConfig enterInput 1 (snd (afterUI exampleConfig enterInput crashedGame))
   \<and> simState (Update exampleConfig enterInput 1 crashedGame) = (200, 300, 0, [], 0, 200)"
proof -
  have idle: "\<not> fst (afterUI exampleConfig idleInput crashedGame)"
      "\<not> is_running (snd (afterUI exampleConfig idleInput crashedGame))"
      "\<not> restartFires exampleConfig idleInput 1 (snd (afterUI exampleConfig idleInput crashedGame))"
    unfolding crashedGame_eq restartFires_def
    by (simp_all add: stage_defs exampleConfig_def idleInput_def)
  have enter: "\<not> fst (afterUI exampleConfig enterInput crashedGame)"
      "\<not> is_running (snd (afterUI exampleConfig enterInput crashedGame))"
      "restartFires exampleConfig enterInput 1 (snd (afterUI exampleConfig enterInput crashedGame))"
    unfolding crashedGame_eq restartFires_def
    by (simp_all add: stage_defs exampleConfig_def enterInput_def idleInput_def)
  have size: "width crashedGame = 800" "height crashedGame = 600" "basePipeSpeed crashedGame = 200"
    by (simp_all add: crashedGame_eq)
  show ?thesis
    using idle enter
      frozen_frame_keeps_simulation_state[of exampleConfig idleInput crashedGame 1]
      frozen_frame_keeps_simulation_state[of exampleConfig enterInput crashedGame 1]
    by (simp add: size int_div_def)
qed

text \<open>
  Claim C6 as it was stated fails on a frame that starts with the game-over flag set:
  once the delay has elapsed, \<^verbatim>\<open>Enter\<close> restarts the game within that frame.
\<close>

theorem frozen_frame_counterexample:
  "gameOver crashedGame \<and> \<not> is_running crashedGame
   \<and> simState crashedGame = (200, 1300, 1000, [\<lparr>pipe_x = 595, gapCenter = 300, scored = False\<rparr>], 0, 205)
   \<and> simState (Update exampleConfig enterInput 1 crashedGame) = (200, 300, 0, [], 0, 200)
   \<and> simState (Update exampleConfig enterInput 1 crashedGame) \<noteq> simState crashedGame"
proof -
  have after: "simState restartedGame = (200, 300, 0, [], 0, 200)"
    by (simp add: restartedGame_eq simState_def)
  have before: "gameOver crashedGame" "\<not> is_running crashedGame"
      "simState crashedGame
         = (200, 1300, 1000, [\<lparr>pipe_x = 595, gapCenter = 300, scored = False\<rparr>], 0, 205)"
    by (simp_all add: crashedGame_eq simState_def is_running_def)
  show ?thesis
    using after before unfolding restartedGame_def by simp
qed

subsection \<open>Music toggle\<close>

lemma handleMusicToggle_pressed:
  "IsKeyPressed inp KEY_M \<Longrightarrow> musicFlags (handleMusicToggle inp g) = (\<not> musicPlaying g, musicPlaying g)"
  by (simp add: handleMusicToggle_def musicFlags_def emit_def)

lemma handleFlap_musicFlags [simp]: "musicFlags (handleFlap cfg inp g) = musicFlags g"
  by (simp add: handleFlap_def musicFlags_def emit_def)

lemma HandleInput_pressed:
  "IsKeyPressed inp KEY_M \<Longrightarrow> musicFlags (HandleInput cfg inp g) = (\<not> musicPlaying g, musicPlaying g)"
  using handleFlap_musicFlags[of cfg inp g]
    handleMusicToggle_pressed[of inp "handleFlap cfg inp g"]
  by (simp add: HandleInput_def musicFlags_def)

lemma raiseHighScore_musicFlags [simp]: "musicFlags (raiseHighScore cfg g) = musicFlags g"
  by (simp add: raiseHighScore_def SaveHighScore_def musicFlags_def emit_def)

lemma onCollision_musicFlags [simp]: "musicFlags (onCollision cfg g) = musicFlags g"
proof -
  have "musicFlags (onCollision cfg g) 
      = musicFlags (emit (PlaySound HitSound) (emit (StopSound ScoreSound) (emit (StopSound FlySound)
          (emit StopMusicStream
             (g\<lparr>gameOver := True, gameOverDelayTimer := gameOverDelayDuration cfg\<rparr>)))))"
    unfolding onCollision_def by (rule raiseHighScore_musicFlags)
  then show ?thesis by (simp add: musicFlags_def emit_def)
qed

lemma stage_musicFlags [simp]:
  "musicFlags (scrollBackground cfg dt g) = musicFlags g"
  "musicFlags (serviceMusic g) = musicFlags g"
  "musicFlags (UpdatePipeSpeed cfg dt g) = musicFlags g"
  "musicFlags (integratePlayer dt g) = musicFlags g"
  "musicFlags (boundaryStep cfg boxH g) = musicFlags g"
  "musicFlags (spawnStep cfg inp dt g) = musicFlags g"
  "musicFlags (removeOffscreen g) = musicFlags g"
  "musicFlags (eyesStep dt g) = musicFlags g"
  "musicFlags (delayStep dt g) = musicFlags g"
  "musicFlags (collisionCheck cfg boxW boxH g p) = musicFlags g"
  "musicFlags (fst (scoreCheck cfg g p)) = musicFlags g"
  by (simp_all add: boundaryStep_def collisionCheck_def scoreCheck_def)
     (simp_all add: musicFlags_def scrollBackground_def serviceMusic_def UpdatePipeSpeed_def
       integratePlayer_def spawnStep_def removeOffscreen_def eyesStep_def delayStep_def
       emit_def Let_def)

lemma pipeStep_musicFlags [simp]: "musicFlags (fst (pipeStep cfg dt boxW boxH g p)) = musicFlags g"
  by (simp add: pipeStep_def Let_def split_beta)

lemma pipeLoop_musicFlags [simp]: "musicFlags (fst (pipeLoop cfg dt boxW boxH g ps)) = musicFlags g"
  by (induction ps arbitrary: g) (simp_all add: split_beta Let_def)

lemma movePipes_musicFlags [simp]: "musicFlags (movePipes cfg dt boxW boxH g) = musicFlags g"
proof -
  have "musicFlags (movePipes cfg dt boxW boxH g) = musicFlags (fst (pipeLoop cfg dt boxW boxH g (pipes g)))"
    by (simp add: movePipes_def split_beta musicFlags_def)
  then show ?thesis by simp
qed

lemma runningFrame_musicFlags:
  "IsKeyPressed inp KEY_M \<Longrightarrow>
     musicFlags (runningFrame cfg inp dt g) = (\<not> musicPlaying g, musicPlaying g)"
  by (simp add: runningFrame_comp HandleInput_pressed)

lemma Reset_music:
  "musicPlaying (Reset cfg inp g) = (if musicManuallyDisabled g then musicPlaying g else True)"
  by (simp add: Reset_def InitGame_def emit_def Let_def)

lemma Reset_disabled:
  "musicManuallyDisabled g \<Longrightarrow>
     musicPlaying (Reset cfg inp g) = musicPlaying g \<and> musicManuallyDisabled (Reset cfg inp g)
     \<and> events (Reset cfg inp g) = events g"
  by (simp add: Reset_def InitGame_def emit_def Let_def)

lemma gameOverStep_musicFlags:
  "musicPlaying g = (\<not> musicManuallyDisabled g) \<Longrightarrow>
     musicFlags (gameOverStep cfg inp dt g) = musicFlags g"
  by (auto simp add: gameOverStep_cases musicFlags_def Reset_music Reset_fields)

lemma Update_toggle_running:
  assumes "dt \<noteq> 0" "\<not> fst (afterUI cfg inp g)" "is_running (snd (afterUI cfg inp g))"
    "IsKeyPressed inp KEY_M"
  shows "musicFlags (Update cfg inp dt g)
           = (\<not> musicPlaying (snd (afterUI cfg inp g)), musicPlaying (snd (afterUI cfg inp g)))"
proof -
  let ?u = "snd (afterUI cfg inp g)"
  let ?m = "serviceMusic (scrollBackground cfg dt ?u)"
  have mp: "musicPlaying ?m = musicPlaying ?u"
    using stage_musicFlags(1,2) by (metis musicFlags_def prod.inject)
  have r: "musicFlags (runningFrame cfg inp dt ?m) = (\<not> musicPlaying ?u, musicPlaying ?u)"
    using runningFrame_musicFlags[OF assms(4), of cfg dt ?m] mp by simp
  then have "musicPlaying (runningFrame cfg inp dt ?m) = (\<not> musicManuallyDisabled (runningFrame cfg inp dt ?m))"
    by (simp add: musicFlags_def)
  from gameOverStep_musicFlags[OF this] r
  show ?thesis using assms by (simp add: Update_comp simulate_comp)
qed

lemma withoutM_fields [simp]:
  "IsKeyPressed (withoutM inp) k = (k \<noteq> KEY_M \<and> IsKeyPressed inp k)"
  "IsKeyDown (withoutM inp) k = IsKeyDown inp k"
  "windowShouldClose (withoutM inp) = windowShouldClose inp"
  "gestureTap (withoutM inp) = gestureTap inp"
  "windowFocused (withoutM inp) = windowFocused inp"
  "touchPosition (withoutM inp) = touchPosition inp"
  "screenWidth (withoutM inp) = screenWidth inp"
  "screenHeight (withoutM inp) = screenHeight inp"
  "randomDraw (withoutM inp) = randomDraw inp"
  by (auto simp add: withoutM_def IsKeyPressed_def IsKeyDown_def)

lemma withoutM_ui [simp]:
  "uiFullscreen (withoutM inp) = uiFullscreen inp"
  "uiFirstStart cfg (withoutM inp) = uiFirstStart cfg inp"
  "uiExitMenu (withoutM inp) = uiExitMenu inp"
  "uiFocus (withoutM inp) = uiFocus inp"
  "uiPauseKey cfg (withoutM inp) = uiPauseKey cfg inp"
  "uiMobilePause cfg (withoutM inp) = uiMobilePause cfg inp"
  "computeScreenScale cfg (withoutM inp) = computeScreenScale cfg inp"
  "restartRequested cfg (withoutM inp) = restartRequested cfg inp"
  by (simp_all add: fun_eq_iff uiFullscreen_def uiFirstStart_def uiExitMenu_def uiFocus_def
      uiPauseKey_def pauseKey_def uiMobilePause_def tapInTitleArea_def computeScreenScale_def
      restartRequested_def)

lemma withoutM_afterUI [simp]: "afterUI cfg (withoutM inp) g = afterUI cfg inp g"
  by (simp add: afterUI_def UpdateUI_def uiAfterExitRequest_def)

lemma withoutM_gameOverStep [simp]:
  "gameOverStep cfg (withoutM inp) dt g = gameOverStep cfg inp dt g"
  by (simp add: gameOverStep_def Reset_def InitGame_def Let_def)

lemma Update_toggle_ignored:
  "fst (afterUI cfg inp g) \<or> \<not> is_running (snd (afterUI cfg inp g)) \<Longrightarrow>
     Update cfg inp dt g = Update cfg (withoutM inp) dt g"
  by (auto simp add: Update_comp simulate_comp)

lemma music_toggle_frame:
  "(IsKeyPressed inp KEY_M \<longrightarrow>
      musicPlaying (HandleInput cfg inp g) = (\<not> musicPlaying g)
      \<and> musicManuallyDisabled (HandleInput cfg inp g) = musicPlaying g)
   \<and> (dt \<noteq> 0 \<and> \<not> fst (afterUI cfg inp g) \<and> is_running (snd (afterUI cfg inp g))
        \<and> IsKeyPressed inp KEY_M \<longrightarrow>
      musicPlaying (Update cfg inp dt g) = (\<not> musicPlaying (snd (afterUI cfg inp g)))
      \<and> musicManuallyDisabled (Update cfg inp dt g) = musicPlaying (snd (afterUI cfg inp g)))
   \<and> (fst (afterUI cfg inp g) \<or> \<not> is_running (snd (afterUI cfg inp g)) \<longrightarrow>
      Update cfg inp dt g = Update cfg (withoutM inp) dt g)
   \<and> (musicManuallyDisabled g \<longrightarrow>
      musicPlaying (Reset cfg inp g) = musicPlaying g \<and> musicManuallyDisabled (Reset cfg inp g)
      \<and> events (Reset cfg inp g) = events g)"
  using HandleInput_pressed[of inp cfg g] Update_toggle_running[of dt cfg inp g]
    Update_toggle_ignored[of cfg inp g dt] Reset_disabled[of g cfg inp]
  by (simp add: musicFlags_def)

text \<open>
  Claim C9, evaluated outside the running mode. \<^verbatim>\<open>HandleInput\<close> puts the \<^verbatim>\<open>M\<close> toggle
  outside the mode test that guards the flap, and the hint "Press M to toggle music" is
  drawn in every mode; but \<^verbatim>\<open>Update\<close> calls \<^verbatim>\<open>HandleInput\<close> only in a running frame.
  With the game over and the music flag set, a frame with \<^verbatim>\<open>M\<close> pressed leaves the music
  flag set and the manually-disabled flag clear; on the welcome screen it leaves the
  music off. In a running frame the toggle works, and \<^verbatim>\<open>Reset\<close> leaves music that the
  player has disabled as it is (lemma \<open>music_toggle_frame\<close>).
\<close>

theorem music_toggle_lost_outside_running:
  "gameOver crashedGame \<and> IsKeyPressed musicInput KEY_M
   \<and> musicPlaying crashedGame \<and> \<not> musicManuallyDisabled crashedGame
   \<and> musicPlaying (Update exampleConfig musicInput 1 crashedGame)
   \<and> \<not> musicManuallyDisabled (Update exampleConfig musicInput 1 crashedGame)
   \<and> firstTimeGameStart newGame
   \<and> \<not> musicPlaying newGame \<and> \<not> musicPlaying (Update exampleConfig musicInput 1 newGame)"
proof -
  have a: "musicPlaying (Update exampleConfig musicInput 1 crashedGame)
      \<and> \<not> musicManuallyDisabled (Update exampleConfig musicInput 1 crashedGame)"
    unfolding crashedGame_eq
    by (simp add: frame_eval exampleConfig_def musicInput_def idleInput_def)
  have b: "\<not> musicPlaying (Update exampleConfig musicInput 1 newGame)"
    unfolding newGame_eq
    by (simp add: frame_eval exampleConfig_def musicInput_def idleInput_def)
  show ?thesis using a b
    by (simp add: crashedGame_eq newGame_eq IsKeyPressed_def musicInput_def)
qed

subsection \<open>Obstacle generation\<close>

lemma float_to_int_of_Ints: "r \<in> \<int> \<Longrightarrow> real_of_int (float_to_int r) = r"
  by (auto simp: float_to_int_def elim!: Ints_cases)

lemma float_to_int_mono:
  assumes "a \<le> b"
  shows "float_to_int a \<le> float_to_int b"
proof (cases "0 \<le> a")
  case True
  then have "0 \<le> b" using assms by simp
  then show ?thesis using True assms by (simp add: float_to_int_def floor_mono)
next
  case False
  then have neg: "\<lceil>a\<rceil> \<le> 0" by (simp add: ceiling_le_zero)
  show ?thesis
  proof (cases "0 \<le> b")
    case True
    then have "0 \<le> \<lfloor>b\<rfloor>" by simp
    then have "\<lceil>a\<rceil> \<le> \<lfloor>b\<rfloor>" using neg by (rule order_trans[rotated])
    then show ?thesis using True False by (simp add: float_to_int_def)
  next
    case nb: False
    then show ?thesis using False assms by (simp add: float_to_int_def ceiling_mono)
  qed
qed

lemma GetRandomValue_bounds:
  assumes "lo \<le> hi"
  shows "lo \<le> GetRandomValue r lo hi \<and> GetRandomValue r lo hi \<le> hi"
proof -
  have pos: "0 < nat (hi - lo + 1)" using assms by simp
  have "r mod nat (hi - lo + 1) < nat (hi - lo + 1)" using pos by (rule mod_less_divisor)
  then have "int (r mod nat (hi - lo + 1)) \<le> hi - lo" using assms by linarith
  then show ?thesis using assms by (simp add: GetRandomValue_def Let_def)
qed

lemma int_div_even_int: "even h \<Longrightarrow> 2 * int_div h 2 = h"
  unfolding int_div_def by (simp add: abs_if)

lemma int_div_even:
  assumes "even h"
  shows "real_of_int (int_div h 2) = real_of_int h / 2"
proof -
  have "real_of_int (2 * int_div h 2) = real_of_int h"
    using int_div_even_int[OF assms] by simp
  then show ?thesis by simp
qed

lemma targetGapCenter_first:
  "pipes g = [] \<Longrightarrow> targetGapCenter cfg inp g = real_of_int (int_div (height g) 2)"
  by (simp add: targetGapCenter_def)

lemma targetGapCenter_Ints: "targetGapCenter cfg inp g \<in> \<int>"
  by (simp add: targetGapCenter_def)

lemma targetGapCenter_trunc:
  assumes "pipes g \<noteq> []" "minGapCenter cfg g \<le> maxGapCenter cfg g"
  shows "real_of_int (float_to_int (minGapCenter cfg g)) \<le> targetGapCenter cfg inp g
       \<and> targetGapCenter cfg inp g \<le> real_of_int (float_to_int (maxGapCenter cfg g))"
proof -
  have "float_to_int (minGapCenter cfg g) \<le> float_to_int (maxGapCenter cfg g)"
    using assms(2) by (rule float_to_int_mono)
  from GetRandomValue_bounds[OF this, of "randomDraw inp"]
  show ?thesis using assms(1) by (simp add: targetGapCenter_def)
qed

lemma gap_bounds_limits:
  "pipeGap g / 2 \<le> minGapCenter cfg g"
  "prevGapCenter g - maxGapHeightDifference cfg \<le> minGapCenter cfg g"
  "maxGapCenter cfg g \<le> real_of_int (height g) - pipeGap g / 2"
  "maxGapCenter cfg g \<le> prevGapCenter g + maxGapHeightDifference cfg"
  by (simp_all add: minGapCenter_def maxGapCenter_def MINf_def MAXf_def)

lemma gap_bounds_Ints:
  "pipeGap g / 2 \<in> \<int> \<Longrightarrow> maxGapHeightDifference cfg \<in> \<int> \<Longrightarrow> prevGapCenter g \<in> \<int> \<Longrightarrow>
     minGapCenter cfg g \<in> \<int> \<and> maxGapCenter cfg g \<in> \<int>"
  by (simp add: minGapCenter_def maxGapCenter_def MINf_def MAXf_def)

lemma gap_bounds_ordered:
  "0 \<le> maxGapHeightDifference cfg \<Longrightarrow> pipeGap g / 2 \<le> prevGapCenter g \<Longrightarrow>
     prevGapCenter g \<le> real_of_int (height g) - pipeGap g / 2 \<Longrightarrow>
     minGapCenter cfg g \<le> maxGapCenter cfg g"
  by (simp add: minGapCenter_def maxGapCenter_def MINf_def MAXf_def)

lemma targetGapCenter_in_range:
  assumes "pipes g \<noteq> []" "minGapCenter cfg g \<le> maxGapCenter cfg g"
    "minGapCenter cfg g \<in> \<int>" "maxGapCenter cfg g \<in> \<int>"
  shows "minGapCenter cfg g \<le> targetGapCenter cfg inp g
       \<and> targetGapCenter cfg inp g \<le> maxGapCenter cfg g"
  using targetGapCenter_trunc[OF assms(1,2), where inp = inp]
    float_to_int_of_Ints[OF assms(3)] float_to_int_of_Ints[OF assms(4)]
  by simp

lemma targetGapCenter_timer [simp]:
  "targetGapCenter cfg inp (g\<lparr>pipeSpawnTimer := t\<rparr>) = targetGapCenter cfg inp g"
  by (simp add: targetGapCenter_def minGapCenter_def maxGapCenter_def prevGapCenter_def)

lemma spawnStep_pipes:
  "pipes (spawnStep cfg inp dt g) =
     (if pipeSpawnTimer g + dt \<ge> pipeSpawnInterval g
      then pipes g @ [\<lparr>pipe_x = real_of_int (width g), gapCenter = targetGapCenter cfg inp g,
                       scored = False\<rparr>]
      else pipes g)"
  by (simp add: spawnStep_def Let_def)

lemma int_div_odd:
  assumes "odd h" "0 \<le> h"
  shows "real_of_int (int_div h 2) = real_of_int h / 2 - 1 / 2"
proof -
  obtain k where k: "h = 2 * k + 1" using assms(1) by (elim oddE)
  have "0 \<le> k" using assms(2) k by linarith
  then have "int_div h 2 = k" unfolding int_div_def k by (simp add: abs_if)
  then show ?thesis by (simp add: k field_simps)
qed

lemma float_to_int_le: "0 \<le> r \<Longrightarrow> real_of_int (float_to_int r) \<le> r"
  by (simp add: float_to_int_def)

lemma float_to_int_less:
  assumes "0 \<le> r" "r \<notin> \<int>"
  shows "real_of_int (float_to_int r) < r"
proof -
  have "real_of_int \<lfloor>r\<rfloor> \<noteq> r" using assms(2) by (metis Ints_of_int)
  moreover have "real_of_int \<lfloor>r\<rfloor> \<le> r" by simp
  ultimately have "real_of_int \<lfloor>r\<rfloor> < r" by linarith
  then show ?thesis using assms(1) by (simp add: float_to_int_def)
qed

text \<open>
  What the generator keeps of the allowed range. The first gap center is \<^verbatim>\<open>height / 2\<close>
  in integer division: the exact midpoint when the height is even, half a pixel above
  it when the height is odd; for an even height the first opening is on the screen as
  soon as the gap fits. A later gap center is a whole number drawn between the two
  bounds after each has lost its fraction on the way into \<^verbatim>\<open>GetRandomValue\<close>. The upper
  bound survives the truncation: the center is at most the upper bound, the opening
  ends on the screen, and the center rises by at most \<open>maxGapDelta\<close>. The lower bound
  survives it when it is a whole number, as it is when \<open>gapSize/2\<close> and \<open>maxGapDelta\<close>
  are (every generated center being whole).
\<close>

lemma first_gap_center:
  assumes "pipes g = []"
  shows "targetGapCenter cfg inp g = real_of_int (int_div (height g) 2)"
    and "even (height g) \<Longrightarrow> targetGapCenter cfg inp g = real_of_int (height g) / 2"
    and "odd (height g) \<Longrightarrow> 0 \<le> height g \<Longrightarrow>
           targetGapCenter cfg inp g = real_of_int (height g) / 2 - 1 / 2"
    and "even (height g) \<Longrightarrow> pipeGap g \<le> real_of_int (height g) \<Longrightarrow>
           0 \<le> targetGapCenter cfg inp g - pipeGap g / 2
           \<and> targetGapCenter cfg inp g + pipeGap g / 2 \<le> real_of_int (height g)"
  using assms by (simp_all add: targetGapCenter_first int_div_even int_div_odd)

lemma gap_center_upper:
  assumes "pipes g \<noteq> []" "minGapCenter cfg g \<le> maxGapCenter cfg g" "0 \<le> maxGapCenter cfg g"
  shows "targetGapCenter cfg inp g \<le> maxGapCenter cfg g"
    and "targetGapCenter cfg inp g + pipeGap g / 2 \<le> real_of_int (height g)"
    and "targetGapCenter cfg inp g - prevGapCenter g \<le> maxGapHeightDifference cfg"
proof -
  have "targetGapCenter cfg inp g \<le> real_of_int (float_to_int (maxGapCenter cfg g))"
    using targetGapCenter_trunc[OF assms(1,2), where inp = inp] by simp
  then show upper: "targetGapCenter cfg inp g \<le> maxGapCenter cfg g"
    using float_to_int_le[OF assms(3)] by linarith
  show "targetGapCenter cfg inp g + pipeGap g / 2 \<le> real_of_int (height g)"
    using upper gap_bounds_limits(3)[where g = g and cfg = cfg] by linarith
  show "targetGapCenter cfg inp g - prevGapCenter g \<le> maxGapHeightDifference cfg"
    using upper gap_bounds_limits(4)[where g = g and cfg = cfg] by linarith
qed

lemma gap_center_lower:
  assumes "pipes g \<noteq> []" "minGapCenter cfg g \<le> maxGapCenter cfg g" "minGapCenter cfg g \<in> \<int>"
  shows "minGapCenter cfg g \<le> targetGapCenter cfg inp g"
    and "0 \<le> targetGapCenter cfg inp g - pipeGap g / 2"
    and "prevGapCenter g - targetGapCenter cfg inp g \<le> maxGapHeightDifference cfg"
proof -
  show lower: "minGapCenter cfg g \<le> targetGapCenter cfg inp g"
    using targetGapCenter_trunc[OF assms(1,2), where inp = inp]
      float_to_int_of_Ints[OF assms(3)] by simp
  show "0 \<le> targetGapCenter cfg inp g - pipeGap g / 2"
    using lower gap_bounds_limits(1)[where g = g and cfg = cfg] by linarith
  show "prevGapCenter g - targetGapCenter cfg inp g \<le> maxGapHeightDifference cfg"
    using lower gap_bounds_limits(2)[where g = g and cfg = cfg] by linarith
qed

lemma gap_center_in_range:
  assumes "pipes g \<noteq> []" "0 \<le> maxGapHeightDifference cfg" "pipeGap g / 2 \<in> \<int>"
    "maxGapHeightDifference cfg \<in> \<int>" "prevGapCenter g \<in> \<int>"
    "0 \<le> pipeGap g" "pipeGap g / 2 \<le> prevGapCenter g"
    "prevGapCenter g \<le> real_of_int (height g) - pipeGap g / 2"
  shows "minGapCenter cfg g \<le> targetGapCenter cfg inp g
       \<and> targetGapCenter cfg inp g \<le> maxGapCenter cfg g
       \<and> 0 \<le> targetGapCenter cfg inp g - pipeGap g / 2
       \<and> targetGapCenter cfg inp g + pipeGap g / 2 \<le> real_of_int (height g)
       \<and> \<bar>targetGapCenter cfg inp g - prevGapCenter g\<bar> \<le> maxGapHeightDifference cfg"
proof -
  have ordered: "minGapCenter cfg g \<le> maxGapCenter cfg g"
    using assms(2,7,8) by (rule gap_bounds_ordered)
  have whole: "minGapCenter cfg g \<in> \<int>"
    using gap_bounds_Ints[OF assms(3,4,5)] by simp
  have "0 \<le> minGapCenter cfg g"
    using assms(6) gap_bounds_limits(1)[where g = g and cfg = cfg] by linarith
  then have nonneg: "0 \<le> maxGapCenter cfg g" using ordered by linarith
  show ?thesis
    using gap_center_upper[OF assms(1) ordered nonneg, where inp = inp]
      gap_center_lower[OF assms(1) ordered whole, where inp = inp]
    by linarith
qed

text \<open>
  What the generator loses of it. A lower bound with a fraction is cut down to the whole
  number below it, and the smallest draw returns that number: the gap center is below
  the allowed range. When the lower bound is \<open>gapSize/2\<close>, the opening begins above the
  top of the screen.
\<close>

lemma gap_center_truncated:
  assumes "pipes g \<noteq> []" "0 \<le> minGapCenter cfg g" "minGapCenter cfg g \<le> maxGapCenter cfg g"
    "minGapCenter cfg g \<notin> \<int>" "randomDraw inp = 0"
  shows "targetGapCenter cfg inp g = real_of_int \<lfloor>minGapCenter cfg g\<rfloor>"
    and "targetGapCenter cfg inp g < minGapCenter cfg g"
proof -
  have "float_to_int (minGapCenter cfg g) \<le> float_to_int (maxGapCenter cfg g)"
    using assms(3) by (rule float_to_int_mono)
  then have drawn: "targetGapCenter cfg inp g = real_of_int (float_to_int (minGapCenter cfg g))"
    using assms(1,5) by (simp add: targetGapCenter_def GetRandomValue_def)
  show "targetGapCenter cfg inp g = real_of_int \<lfloor>minGapCenter cfg g\<rfloor>"
    using drawn assms(2) by (simp add: float_to_int_def)
  show "targetGapCenter cfg inp g < minGapCenter cfg g"
    using drawn float_to_int_less[OF assms(2,4)] by simp
qed

lemma gap_center_off_screen:
  assumes "pipes g \<noteq> []" "0 \<le> pipeGap g" "pipeGap g / 2 \<notin> \<int>"
    "prevGapCenter g - maxGapHeightDifference cfg \<le> pipeGap g / 2"
    "pipeGap g / 2 \<le> maxGapCenter cfg g" "randomDraw inp = 0"
  shows "targetGapCenter cfg inp g - pipeGap g / 2 < 0"
proof -
  have lo: "minGapCenter cfg g = pipeGap g / 2"
    using assms(4) by (simp add: minGapCenter_def MAXf_def)
  have "targetGapCenter cfg inp g < minGapCenter cfg g"
    using assms(1,2,3,5,6) by (intro gap_center_truncated(2)) (simp_all add: lo)
  then show ?thesis by (simp add: lo)
qed

lemma oddGapGame_eq:
  "oddGapGame =
     \<lparr>firstTimeGameStart = False, isInExitMenu = False, paused = False,
      lostWindowFocus = False, gameOver = False, exitWindowRequested = False,
      exitWindow = False, fullscreen = False, screenScale = 1, width = 800,
      height = 600, playerSize = 80, playerX = 200, playerY = 460,
      playerVelocity = 100, playerCollisionWidthRatio = 7 / 10,
      playerCollisionHeightRatio = 11 / 20, gravity = 1000, jumpForce = - 400,
      pipeWidth = 80, pipeGap = 175, pipeSpeed = 208, basePipeSpeed = 200,
      pipeSpawnInterval = 25 / 13, pipeSpawnTimer = 3 / 2,
      initialPipeDistance = 400, speedLevel = 0,
      pipes = [\<lparr>pipe_x = 4717 / 10, gapCenter = 300, scored = False\<rparr>],
      score = 0, highScore = 0, musicPlaying = True,
      musicManuallyDisabled = False, backgroundScrollX = 649 / 10,
      backgroundScrollSpeed = 208 / 5, playerEyesClosedTimer = 0,
      gameOverDelayTimer = 0,
      events = [PlaySound FlySound, UpdateMusicStream, PlaySound FlySound,
                UpdateMusicStream, PlaySound FlySound, UpdateMusicStream,
                UpdateMusicStream, PlayMusicStream]\<rparr>"
  unfolding oddGapGame_def
  by (simp add: Game_def LoadHighScore_def blankGame_def frame_eval oddGapConfig_def
      exampleConfig_def startInput_def flapInput_def idleInput_def)

text \<open>
  Claim C4, evaluated on a run of the game. With a gap of 175 pixels on a screen of
  600, the run is started and kept in the air until the second obstacle is generated.
  The allowed range for its gap center is \<open>[87.5, 512.5]\<close>; the source passes the two
  bounds to \<^verbatim>\<open>GetRandomValue(int, int)\<close>, the smallest draw returns 87, and the obstacle
  is stored with that center: below the range, its opening beginning half a pixel above
  the top of the screen. On a screen of height 601 the first obstacle is stored with
  the center 300, half a pixel above the midpoint.
\<close>

theorem gap_center_below_allowed_range:
  "is_running oddGapGame \<and> pipeGap oddGapGame = 175 \<and> height oddGapGame = 600
   \<and> map gapCenter (pipes oddGapGame) = [300]
   \<and> minGapCenter oddGapConfig oddGapGame = 175 / 2
   \<and> maxGapCenter oddGapConfig oddGapGame = 1025 / 2
   \<and> targetGapCenter oddGapConfig flapInput oddGapGame = 87
   \<and> is_running oddGapSpawned \<and> pipeGap oddGapSpawned = 175
   \<and> map gapCenter (pipes oddGapSpawned) = [300, 87]
   \<and> \<not> minGapCenter oddGapConfig oddGapGame \<le> gapCenter (last (pipes oddGapSpawned))
   \<and> \<not> 0 \<le> gapCenter (last (pipes oddGapSpawned)) - pipeGap oddGapSpawned / 2
   \<and> pipes oddGame = [] \<and> height oddGame = 601
   \<and> is_running oddStarted \<and> height oddStarted = 601
   \<and> map gapCenter (pipes oddStarted) = [300]
   \<and> gapCenter (last (pipes oddStarted)) \<noteq> real_of_int (height oddStarted) / 2
   \<and> gapCenter (last (pipes oddStarted)) = real_of_int (height oddStarted) / 2 - 1 / 2"
proof -
  have before: "is_running oddGapGame" "pipeGap oddGapGame = 175" "height oddGapGame = 600"
      "map gapCenter (pipes oddGapGame) = [300]"
    by (simp_all add: oddGapGame_eq is_running_def)
  have bounds: "minGapCenter oddGapConfig oddGapGame = 175 / 2"
      "maxGapCenter oddGapConfig oddGapGame = 1025 / 2"
    by (simp_all add: minGapCenter_def maxGapCenter_def prevGapCenter_def oddGapGame_eq
        MINf_def MAXf_def oddGapConfig_def exampleConfig_def)
  have drawn: "targetGapCenter oddGapConfig flapInput oddGapGame = 87"
    unfolding targetGapCenter_def bounds
    by (simp add: oddGapGame_eq float_to_int_def GetRandomValue_def flapInput_def
        idleInput_def)
  have spawned: "is_running oddGapSpawned" "pipeGap oddGapSpawned = 175"
      "map gapCenter (pipes oddGapSpawned) = [300, 87]"
      "gapCenter (last (pipes oddGapSpawned)) = 87"
    unfolding oddGapSpawned_def oddGapGame_eq
    by (simp_all add: frame_eval oddGapConfig_def exampleConfig_def flapInput_def idleInput_def)
  have odd: "pipes oddGame = []" "height oddGame = 601"
    by (simp_all add: oddGame_def Game_def LoadHighScore_def InitGame_def blankGame_def Let_def)
  have started: "is_running oddStarted" "height oddStarted = 601"
      "map gapCenter (pipes oddStarted) = [300]" "gapCenter (last (pipes oddStarted)) = 300"
    unfolding oddStarted_def oddGame_def
    by (simp_all add: Game_def LoadHighScore_def blankGame_def frame_eval exampleConfig_def
        startInput_def idleInput_def)
  show ?thesis
    using before bounds drawn spawned odd started by simp
qed

subsection \<open>Speed, spawn interval and background scroll\<close>

lemma tick_relations:
  "pipeSpawnInterval (UpdatePipeSpeed cfg dt g)
     = initialPipeDistance g / pipeSpeed (UpdatePipeSpeed cfg dt g)"
  "pipeSpeed (UpdatePipeSpeed cfg dt g) \<noteq> 0 \<Longrightarrow>
     pipeSpawnInterval (UpdatePipeSpeed cfg dt g) * pipeSpeed (UpdatePipeSpeed cfg dt g)
       = initialPipeDistance g"
  "backgroundScrollSpeed (UpdatePipeSpeed cfg dt g)
     = pipeSpeed (UpdatePipeSpeed cfg dt g) * (2 / 10)"
  "initialPipeDistance (UpdatePipeSpeed cfg dt g) = initialPipeDistance g"
  by (simp_all add: UpdatePipeSpeed_def Let_def)

lemma constructed_relations:
  "backgroundScrollSpeed (Game cfg inp f w h g0) = pipeSpeed (Game cfg inp f w h g0) * (2 / 10)"
  "initialPipeDistance (Game cfg inp f w h g0)
     = pipeSpeed (Game cfg inp f w h g0) * pipeSpawnInterval (Game cfg inp f w h g0)"
  by (simp_all add: Game_def InitGame_def LoadHighScore_def Let_def split: highscore_file.splits)

text \<open>
  Claim C5, evaluated on a run that is restarted. The constructor and every tick set the
  background scroll speed to 20% of \<open>pipeSpeed\<close>, and the tick sets the spawn interval
  to \<open>initialPipeDistance / pipeSpeed\<close> (lemmas \<open>tick_relations\<close> and
  \<open>constructed_relations\<close>). \<^verbatim>\<open>Reset\<close> puts \<open>pipeSpeed\<close> back to the base speed and
  leaves the scroll speed where the last tick put it: after the restart the scroll speed
  is 41 while 20% of the speed is 40, and the next running frame scrolls the background
  by the stale speed before the tick renews it.
\<close>

theorem scroll_speed_stale_after_reset:
  "pipeSpeed crashedGame = 205
   \<and> backgroundScrollSpeed crashedGame = pipeSpeed crashedGame * (2 / 10)
   \<and> restartedGame = Update exampleConfig enterInput 1 crashedGame
   \<and> pipeSpeed restartedGame = 200
   \<and> backgroundScrollSpeed restartedGame = 41
   \<and> backgroundScrollSpeed restartedGame \<noteq> pipeSpeed restartedGame * (2 / 10)
   \<and> is_running restartedGame
   \<and> backgroundScrollX (Update exampleConfig idleInput (1 / 2) restartedGame)
       = backgroundScrollX restartedGame + 41 * (1 / 2)"
proof -
  have before: "pipeSpeed crashedGame = 205"
      "backgroundScrollSpeed crashedGame = pipeSpeed crashedGame * (2 / 10)"
    by (simp_all add: crashedGame_eq)
  have after: "pipeSpeed restartedGame = 200" "backgroundScrollSpeed restartedGame = 41"
      "backgroundScrollSpeed restartedGame \<noteq> pipeSpeed restartedGame * (2 / 10)"
      "is_running restartedGame"
    by (simp_all add: restartedGame_eq is_running_def)
  have next_frame:
    "backgroundScrollX (Update exampleConfig idleInput (1 / 2) restartedGame)
       = backgroundScrollX restartedGame + 41 * (1 / 2)"
    unfolding restartedGame_eq
    by (simp add: frame_eval exampleConfig_def idleInput_def)
  show ?thesis
    using before after next_frame restartedGame_def by blast
qed

end
